theory Spec2Isabelle
  imports Complex_Main "HOL-Library.Multiset" "HOL-Library.Char_ord" "HOL-Library.List_Lexorder"
begin

section \<open>The quiz engine of src/components/QuizBlock.vue\<close>

text \<open>
  The component is a Vue single-file component written in TypeScript. Its script block owns
  three pieces of mutable data: \<open>status\<close>, \<open>state\<close> (the session, persisted as JSON in
  localStorage by a deep watcher) and \<open>timeLeft\<close>, plus the handle of a one-second interval
  timer and two DOM event listeners. Every function of the script is modelled as a function
  on a record of that data. What the browser supplies is passed in as an argument: the clock
  reading \<open>Date.now()\<close>, the outcome of the random comparators, the focus and visibility of
  the document, the digest \<open>crypto.subtle.digest\<close> and the embedded database (PGlite).
  Numbers are JavaScript numbers holding integers and are modelled as \<open>int\<close>; where the
  source can produce \<open>NaN\<close> the model has the value \<open>NaN\<close> of \<open>jsnum\<close>.
\<close>

subsection \<open>Strings\<close>

text \<open>
  A string is the list of the bytes of its UTF-8 encoding. \<open>String.prototype.trim\<close>
  removes the white space and line terminators of ECMAScript from both ends: the ASCII
  ones (tab, line feed, vertical tab, form feed, carriage return, space), U+00A0, U+1680,
  U+2000 to U+200A, U+2028, U+2029, U+202F, U+205F, U+3000 and U+FEFF, here in their
  encodings of two and three bytes.
\<close>

definition is_space :: "char \<Rightarrow> bool" where
  "is_space c = (c \<in> set [CHR 0x20, CHR 0x09, CHR 0x0A, CHR 0x0B, CHR 0x0C, CHR 0x0D])"

definition is_space2 :: "char \<Rightarrow> char \<Rightarrow> bool" where
  "is_space2 c d = (c = CHR 0xC2 \<and> d = CHR 0xA0)"

text \<open>The last byte of U+2000 to U+200A, U+2028, U+2029 and U+202F, after E2 80.\<close>

definition e280_spaces :: "char list" where
  "e280_spaces =
     [CHR 0x80, CHR 0x81, CHR 0x82, CHR 0x83, CHR 0x84, CHR 0x85, CHR 0x86, CHR 0x87,
      CHR 0x88, CHR 0x89, CHR 0x8A, CHR 0xA8, CHR 0xA9, CHR 0xAF]"

definition is_space3 :: "char \<Rightarrow> char \<Rightarrow> char \<Rightarrow> bool" where
  "is_space3 c d e =
     ((c = CHR 0xE1 \<and> d = CHR 0x9A \<and> e = CHR 0x80) \<or>
      (c = CHR 0xE2 \<and> d = CHR 0x80 \<and> e \<in> set e280_spaces) \<or>
      (c = CHR 0xE2 \<and> d = CHR 0x81 \<and> e = CHR 0x9F) \<or>
      (c = CHR 0xE3 \<and> d = CHR 0x80 \<and> e = CHR 0x80) \<or>
      (c = CHR 0xEF \<and> d = CHR 0xBB \<and> e = CHR 0xBF))"

fun trimStart :: "string \<Rightarrow> string" where
  "trimStart (c # d # e # cs) =
     (if is_space c then trimStart (d # e # cs)
      else if is_space2 c d then trimStart (e # cs)
      else if is_space3 c d e then trimStart cs
      else c # d # e # cs)"
| "trimStart [c, d] =
     (if is_space c then trimStart [d] else if is_space2 c d then [] else [c, d])"
| "trimStart [c] = (if is_space c then [] else [c])"
| "trimStart [] = []"

text \<open>The same from the end, on the reversed string: the bytes of a character come last first.\<close>

fun trimStartRev :: "string \<Rightarrow> string" where
  "trimStartRev (e # d # c # cs) =
     (if is_space e then trimStartRev (d # c # cs)
      else if is_space2 d e then trimStartRev (c # cs)
      else if is_space3 c d e then trimStartRev cs
      else e # d # c # cs)"
| "trimStartRev [e, d] =
     (if is_space e then trimStartRev [d] else if is_space2 d e then [] else [e, d])"
| "trimStartRev [e] = (if is_space e then [] else [e])"
| "trimStartRev [] = []"

declare trimStart.simps [simp del] trimStartRev.simps [simp del]

definition trimEnd :: "string \<Rightarrow> string" where
  "trimEnd s = rev (trimStartRev (rev s))"

definition trim :: "string \<Rightarrow> string" where
  "trim s = trimEnd (trimStart s)"

text \<open>\<open>s.replace(/;$/, "")\<close>: without the \<open>m\<close> flag, \<open>$\<close> is the end of the input only.\<close>

definition stripTerminator :: "string \<Rightarrow> string" where
  "stripTerminator s = (if s \<noteq> [] \<and> last s = CHR '';'' then butlast s else s)"

text \<open>\<open>xs.join(sep)\<close>\<close>

fun join :: "string \<Rightarrow> string list \<Rightarrow> string" where
  "join sep [] = []"
| "join sep [x] = x"
| "join sep (x # y # ys) = x @ sep @ join sep (y # ys)"

text \<open>
  \<open>n.toString()\<close> for a number that holds a non-negative integer, and
  \<open>s.padStart(2, "0")\<close>.
\<close>

definition digit_char :: "nat \<Rightarrow> char" where
  "digit_char d = ''0123456789'' ! d"

fun toString_nat :: "nat \<Rightarrow> string" where
  "toString_nat n = (if n < 10 then [digit_char n] else toString_nat (n div 10) @ [digit_char (n mod 10)])"

declare toString_nat.simps [simp del]

definition padStart2 :: "string \<Rightarrow> string" where
  "padStart2 s = replicate (2 - length s) (CHR ''0'') @ s"

text \<open>
  \<open>parseInt(s)\<close> on a string: leading white space is skipped, one sign is accepted, then the
  longest run of decimal digits is read; no digit gives \<open>NaN\<close> (\<open>None\<close>). The hexadecimal
  prefix \<open>0x\<close> is not modelled.
\<close>

definition is_digit :: "char \<Rightarrow> bool" where
  "is_digit c = (CHR ''0'' \<le> c \<and> c \<le> CHR ''9'')"

definition digit_val :: "char \<Rightarrow> int" where
  "digit_val c = int (of_char c) - int (of_char (CHR ''0''))"

definition digits_val :: "string \<Rightarrow> int" where
  "digits_val ds = foldl (\<lambda>acc c. 10 * acc + digit_val c) 0 ds"

definition parseDigits :: "string \<Rightarrow> int option" where
  "parseDigits s = (let ds = takeWhile is_digit s in if ds = [] then None else Some (digits_val ds))"

definition parseInt :: "string \<Rightarrow> int option" where
  "parseInt s =
     (case trimStart s of
        [] \<Rightarrow> None
      | c # cs \<Rightarrow>
          if c = CHR ''-'' then map_option uminus (parseDigits cs)
          else if c = CHR ''+'' then parseDigits cs
          else parseDigits (c # cs))"

datatype jsnum = NaN | Num int

fun jsadd :: "jsnum \<Rightarrow> int \<Rightarrow> jsnum" where
  "jsadd NaN d = NaN"
| "jsadd (Num a) d = Num (a + d)"

subsection \<open>Data\<close>

text \<open>
  A question of the quiz document. \<open>qid\<close>, \<open>qtype\<close> and \<open>qtext\<close> are the fields \<open>id\<close>,
  \<open>type\<close> and \<open>text\<close>. \<open>options\<close> and \<open>init_sql\<close> may be absent. \<open>isCorrect\<close> is absent
  until \<open>finishTest\<close> writes it.
\<close>

record qoption =
  opt_id :: string
  opt_text :: string

record question =
  qid :: string
  qtype :: string
  qtext :: string
  points :: int
  options :: "qoption list option"
  correct_hash :: string
  correct_query :: string
  sort_required :: bool
  init_sql :: "string list option"
  isCorrect :: "bool option"

text \<open>
  The quiz document (\<open>testData\<close>). \<open>grading\<close> is the object that maps a grade, written as
  a key string, to the least percentage that earns it; it is kept as an association list
  with distinct keys.
\<close>

record testdata =
  title :: string
  time_limit :: "int option"
  max_cheat_attempts :: "int option"
  grading :: "(string \<times> rat) list"
  td_questions :: "question list"

text \<open>An answer is a string (SQL question) or an array of option ids (multiple choice).\<close>

datatype answer = AText string | AList "string list"

text \<open>
  A line of \<open>cheatLogs\<close> is a fixed Russian phrase followed by
  \<open>new Date().toLocaleTimeString()\<close>; it is kept as the clock reading it renders. The two
  alerts of the component are kept in the same way.
\<close>

datatype logline = CheatLog int

datatype alert = TimeUp | CheatWarning int "int option"

record state =
  questions :: "question list"
  answers :: "string \<rightharpoonup> answer"
  currentIndex :: int
  startTime :: int
  endTime :: int
  questionTimings :: "string \<rightharpoonup> jsnum"
  lastQuestionEntryTime :: int
  cheatAttempts :: int
  cheatLogs :: "logline list"
  score :: int
  maxScore :: int
  grade :: jsnum
  isBlocked :: bool

definition initial_state :: state where
  "initial_state =
     \<lparr> questions = [], answers = Map.empty, currentIndex = 0, startTime = 0, endTime = 0,
       questionTimings = Map.empty, lastQuestionEntryTime = 0, cheatAttempts = 0,
       cheatLogs = [], score = 0, maxScore = 0, grade = Num 0, isBlocked = False \<rparr>"

datatype status = INIT | LOADING | READY | IN_PROGRESS | COMPLETED | BLOCKED | COMPLETED_VIEW

text \<open>
  The component. \<open>timerInterval\<close> is the variable of that name (a handle or \<open>null\<close>);
  \<open>intervals\<close> are the handles of the interval timers that are live in the browser and
  \<open>nextHandle\<close> the next handle \<open>setInterval\<close> returns. \<open>listeners\<close> tells whether
  \<open>checkFocus\<close> is registered for \<open>blur\<close> and \<open>visibilitychange\<close>. \<open>alerts\<close> are the
  alerts shown so far. \<open>pending\<close> counts the calls of the asynchronous \<open>finishTest\<close> that
  have run up to their grading loop and not yet finished it.
\<close>

record ctrl =
  status :: status
  testData :: "testdata option"
  state :: state
  timeLeft :: string
  timerInterval :: "nat option"
  intervals :: "nat list"
  nextHandle :: nat
  listeners :: bool
  alerts :: "alert list"
  pending :: nat

definition initial_ctrl :: ctrl where
  "initial_ctrl =
     \<lparr> status = INIT, testData = None, state = initial_state, timeLeft = [],
       timerInterval = None, intervals = [], nextHandle = 0, listeners = False,
       alerts = [], pending = 0 \<rparr>"

subsection \<open>Hasher\<close>

text \<open>
  \<open>sha256\<close> encodes the message as UTF-8, asks the browser for the SHA-256 digest and
  renders it in hexadecimal. The digest is the browser's; it is the argument \<open>digest\<close>.
  \<open>userAnswers.sort()\<close> sorts the ids as strings, in place.
\<close>

definition mcHash :: "(string \<Rightarrow> string) \<Rightarrow> string list \<Rightarrow> string" where
  "mcHash digest userAnswers = digest (join '','' (sort userAnswers))"

text \<open>
  The multiple-choice branch of \<open>finishTest\<close> for one question: the verdict and the value
  left in \<open>state.answers[q.id]\<close>. A missing or empty-string answer is replaced by a fresh
  empty array, which is not stored.
\<close>

fun gradeChoice :: "(string \<Rightarrow> string) \<Rightarrow> question \<Rightarrow> answer option \<Rightarrow> bool \<times> answer option" where
  "gradeChoice digest q None = (mcHash digest [] = correct_hash q, None)"
| "gradeChoice digest q (Some (AText s)) =
     (if s = [] then (mcHash digest [] = correct_hash q, Some (AText s)) else (False, Some (AText s)))"
| "gradeChoice digest q (Some (AList xs)) =
     (mcHash digest xs = correct_hash q, Some (AList (sort xs)))"

subsection \<open>QueryGrader\<close>

text \<open>
  The embedded database is PGlite, a library outside this repository. It is part of the
  argument \<open>e\<close>: \<open>fresh\<close> is the database \<open>new PGlite()\<close> gives once \<open>waitReady\<close> has
  resolved, \<open>exec\<close> runs a setup statement and \<open>query\<close> a query; \<open>None\<close> is a rejected
  promise. A row is an object from column name to value. The last field of \<open>e\<close> is the
  function \<open>sha256\<close> of the component: the hexadecimal SHA-256 digest of the UTF-8 encoding
  of its argument, computed by the browser.
\<close>

datatype sqlval = SqlNull | SqlInt int | SqlText string | SqlBool bool

type_synonym row = "(string \<times> sqlval) list"

record 'db env =
  fresh :: 'db
  exec :: "'db \<Rightarrow> string \<Rightarrow> 'db option"
  query :: "'db \<Rightarrow> string \<Rightarrow> ('db \<times> row list) option"
  sha256 :: "string \<Rightarrow> string"

text \<open>The template literal of the two counting queries, with its line breaks and indentation.\<close>

definition exceptAllCount :: "string \<Rightarrow> string \<Rightarrow> string" where
  "exceptAllCount a b =
     [CHR 0x0A] @ ''            SELECT count(*) as cnt '' @
     [CHR 0x0A] @ ''            FROM (('' @ a @ '') EXCEPT ALL ('' @ b @ '')) as diff'' @
     [CHR 0x0A] @ ''        ''"

text \<open>
  \<open>parseInt(row.cnt as string)\<close>: the value is converted to a string and parsed. A number
  that holds an integer parses to itself; an absent column, \<open>null\<close> and a boolean give
  \<open>NaN\<close> (\<open>None\<close>).
\<close>

fun parseCnt :: "row \<Rightarrow> int option" where
  "parseCnt r =
     (case map_of r ''cnt'' of
        Some (SqlInt n) \<Rightarrow> Some n
      | Some (SqlText s) \<Rightarrow> parseInt s
      | _ \<Rightarrow> None)"

text \<open>
  The two counting queries and the two counts. \<open>None\<close> is an exception: a rejected query,
  or \<open>rows[0]\<close> undefined.
\<close>

definition sqlCounts :: "'db env \<Rightarrow> 'db \<Rightarrow> string \<Rightarrow> string \<Rightarrow> ('db \<times> int option \<times> int option) option" where
  "sqlCounts e db studentSql correctQuery =
     (case query e db (exceptAllCount studentSql correctQuery) of
        None \<Rightarrow> None
      | Some (db1, checkExtra) \<Rightarrow>
          (case query e db1 (exceptAllCount correctQuery studentSql) of
             None \<Rightarrow> None
           | Some (db2, checkMissing) \<Rightarrow>
               (case checkExtra of
                  [] \<Rightarrow> None
                | r1 # _ \<Rightarrow>
                    (case checkMissing of
                       [] \<Rightarrow> None
                     | r2 # _ \<Rightarrow> Some (db2, parseCnt r1, parseCnt r2)))))"

fun runInit :: "'db env \<Rightarrow> 'db \<Rightarrow> string list \<Rightarrow> 'db option" where
  "runInit e db [] = Some db"
| "runInit e db (sql # rest) = (case exec e db sql of None \<Rightarrow> None | Some db1 \<Rightarrow> runInit e db1 rest)"

text \<open>
  \<open>JSON.stringify(rows)\<close> for rows of the values above. Control characters inside strings
  are left as they are.
\<close>

definition toString_int :: "int \<Rightarrow> string" where
  "toString_int n = (if n < 0 then ''-'' @ toString_nat (nat (- n)) else toString_nat (nat n))"

definition json_string :: "string \<Rightarrow> string" where
  "json_string s =
     [CHR 0x22] @ concat (map (\<lambda>c. if c = CHR 0x22 \<or> c = CHR 0x5C then [CHR 0x5C, c] else [c]) s) @ [CHR 0x22]"

fun json_val :: "sqlval \<Rightarrow> string" where
  "json_val SqlNull = ''null''"
| "json_val (SqlInt n) = toString_int n"
| "json_val (SqlText s) = json_string s"
| "json_val (SqlBool b) = (if b then ''true'' else ''false'')"

definition json_row :: "row \<Rightarrow> string" where
  "json_row r = ''{'' @ join '','' (map (\<lambda>(k, v). json_string k @ '':'' @ json_val v) r) @ ''}''"

definition JSON_stringify :: "row list \<Rightarrow> string" where
  "JSON_stringify rows = ''['' @ join '','' (map json_row rows) @ '']''"

text \<open>
  The SQL branch of \<open>finishTest\<close> for a student text \<open>s\<close>. Every exception ends in one of
  the two \<open>catch\<close> blocks, which set \<open>isCorrect = false\<close>.
\<close>

definition gradeSqlText :: "'db env \<Rightarrow> question \<Rightarrow> string \<Rightarrow> bool" where
  "gradeSqlText e q s =
     (if s = [] \<or> trim s = [] then False
      else
        let studentSql = stripTerminator (trim s) in
        case runInit e (fresh e) (case init_sql q of None \<Rightarrow> [] | Some l \<Rightarrow> l) of
          None \<Rightarrow> False
        | Some db0 \<Rightarrow>
            (case query e db0 studentSql of
               None \<Rightarrow> False
             | Some (db1, _) \<Rightarrow>
                 let correctQuery = stripTerminator (trim (correct_query q)) in
                 (case sqlCounts e db1 studentSql correctQuery of
                    None \<Rightarrow> False
                  | Some (db2, extraCount, missingCount) \<Rightarrow>
                      let dataCorrect = (extraCount = Some 0 \<and> missingCount = Some 0) in
                      if dataCorrect \<and> sort_required q then
                        (case query e db2 studentSql of
                           None \<Rightarrow> False
                         | Some (db3, resStudent) \<Rightarrow>
                             (case query e db3 correctQuery of
                                None \<Rightarrow> False
                              | Some (db4, resCorrect) \<Rightarrow>
                                  if JSON_stringify resStudent \<noteq> JSON_stringify resCorrect
                                  then False else dataCorrect))
                      else dataCorrect)))"

text \<open>
  An absent answer is falsy, so the question is incorrect; an array has no \<open>trim\<close>, the
  call raises and the outer \<open>catch\<close> marks the question incorrect.
\<close>

fun gradeSql :: "'db env \<Rightarrow> question \<Rightarrow> answer option \<Rightarrow> bool" where
  "gradeSql e q None = False"
| "gradeSql e q (Some (AList xs)) = False"
| "gradeSql e q (Some (AText s)) = gradeSqlText e q s"

subsection \<open>Grading loop and grade\<close>

definition gradeOne :: "'db env \<Rightarrow> question \<Rightarrow> answer option \<Rightarrow> bool \<times> answer option" where
  "gradeOne e q a =
     (if qtype q = ''sql-select'' then (gradeSql e q a, a) else gradeChoice (sha256 e) q a)"

text \<open>
  The loop \<open>for (const q of state.value.questions)\<close>: it writes \<open>q.isCorrect\<close>, sorts the
  stored multiple-choice answers and adds up \<open>totalScore\<close>.
\<close>

fun gradeAll :: "'db env \<Rightarrow> question list \<Rightarrow> (string \<rightharpoonup> answer) \<Rightarrow> int
    \<Rightarrow> question list \<times> (string \<rightharpoonup> answer) \<times> int" where
  "gradeAll e [] ans totalScore = ([], ans, totalScore)"
| "gradeAll e (q # qs) ans totalScore =
     (case gradeOne e q (ans (qid q)) of
        (ok, a) \<Rightarrow>
          (case gradeAll e qs (ans(qid q := a)) (if ok then totalScore + points q else totalScore) of
             (qs', ans', tot) \<Rightarrow> (q\<lparr>isCorrect := Some ok\<rparr> # qs', ans', tot)))"

text \<open>
  \<open>percent >= grading[gradeStr]\<close> with \<open>percent = (totalScore / maxScore) * 100\<close>. A zero
  \<open>maxScore\<close> makes \<open>percent\<close> infinite or \<open>NaN\<close>. The quotient is exact here; the source
  rounds it to a double.
\<close>

definition percent_ge :: "int \<Rightarrow> int \<Rightarrow> rat \<Rightarrow> bool" where
  "percent_ge totalScore maxS thr =
     (if maxS = 0 then 0 < totalScore else thr \<le> (of_int totalScore / of_int maxS) * 100)"

definition finalGrade :: "testdata \<Rightarrow> int \<Rightarrow> int \<Rightarrow> jsnum" where
  "finalGrade td totalScore maxS =
     (case List.find (\<lambda>gradeStr. case map_of (grading td) gradeStr of
                                   None \<Rightarrow> False
                                 | Some thr \<Rightarrow> percent_ge totalScore maxS thr)
             (rev (sort (map fst (grading td)))) of
        None \<Rightarrow> Num 2
      | Some gradeStr \<Rightarrow> (case parseInt gradeStr of None \<Rightarrow> NaN | Some g \<Rightarrow> Num g))"

subsection \<open>Timing and navigation\<close>

text \<open>
  \<open>recordTime\<close> reads \<open>state.questions[state.currentIndex].id\<close>, which raises a TypeError
  (\<open>None\<close>) when the index is outside the array. Adding to a bucket that does not exist
  gives \<open>NaN\<close>. \<open>now\<close> is \<open>Date.now()\<close>.
\<close>

definition recordTime :: "int \<Rightarrow> state \<Rightarrow> state option" where
  "recordTime now s =
     (if 0 \<le> currentIndex s \<and> currentIndex s < int (length (questions s)) then
        let currentQId = qid (questions s ! nat (currentIndex s));
            spent = now - lastQuestionEntryTime s
        in Some (s\<lparr>questionTimings := (questionTimings s)(currentQId \<mapsto>
                    (case questionTimings s currentQId of None \<Rightarrow> NaN | Some t \<Rightarrow> jsadd t spent))\<rparr>)
      else None)"

definition nextQuestion :: "int \<Rightarrow> state \<Rightarrow> state option" where
  "nextQuestion now s =
     (case recordTime now s of
        None \<Rightarrow> None
      | Some s1 \<Rightarrow>
          Some (if currentIndex s1 < int (length (questions s1)) - 1
                then s1\<lparr>currentIndex := currentIndex s1 + 1, lastQuestionEntryTime := now\<rparr>
                else s1))"

definition prevQuestion :: "int \<Rightarrow> state \<Rightarrow> state option" where
  "prevQuestion now s =
     (case recordTime now s of
        None \<Rightarrow> None
      | Some s1 \<Rightarrow>
          Some (if currentIndex s1 > 0
                then s1\<lparr>currentIndex := currentIndex s1 - 1, lastQuestionEntryTime := now\<rparr>
                else s1))"

subsection \<open>Interval timer and listeners\<close>

definition setInterval :: "ctrl \<Rightarrow> ctrl" where
  "setInterval c =
     c\<lparr>timerInterval := Some (nextHandle c), intervals := intervals c @ [nextHandle c],
       nextHandle := Suc (nextHandle c)\<rparr>"

definition clearInterval :: "ctrl \<Rightarrow> ctrl" where
  "clearInterval c =
     (case timerInterval c of
        None \<Rightarrow> c
      | Some h \<Rightarrow> c\<lparr>intervals := removeAll h (intervals c)\<rparr>)"

definition addCheatListeners :: "ctrl \<Rightarrow> ctrl" where
  "addCheatListeners c = c\<lparr>listeners := True\<rparr>"

definition removeCheatListeners :: "ctrl \<Rightarrow> ctrl" where
  "removeCheatListeners c = c\<lparr>listeners := False\<rparr>"

subsection \<open>finishTest\<close>

text \<open>
  \<open>finishTest\<close> is asynchronous. Up to the grading loop it runs in the caller's turn:
  \<open>finishTest_sync\<close>. \<open>Inl\<close> is the TypeError of \<open>recordTime\<close>, which rejects the promise
  after the interval has been cleared. The loop and the statements after it are
  \<open>finishTest_grade\<close>.
\<close>

definition finishTest_sync :: "int \<Rightarrow> ctrl \<Rightarrow> ctrl + ctrl" where
  "finishTest_sync now c =
     (let c1 = clearInterval c in
      case recordTime now (state c1) of
        None \<Rightarrow> Inl c1
      | Some s \<Rightarrow> Inr ((removeCheatListeners (c1\<lparr>state := s\<rparr>))\<lparr>state := s\<lparr>endTime := now\<rparr>\<rparr>))"

definition finishTest_grade :: "'db env \<Rightarrow> testdata \<Rightarrow> ctrl \<Rightarrow> ctrl" where
  "finishTest_grade e td c =
     (case gradeAll e (questions (state c)) (answers (state c)) 0 of
        (qs, ans, totalScore) \<Rightarrow>
          c\<lparr>state := (state c)\<lparr>questions := qs, answers := ans, score := totalScore,
                                grade := finalGrade td totalScore (maxScore (state c))\<rparr>,
            status := COMPLETED_VIEW\<rparr>)"

text \<open>The whole of \<open>finishTest\<close>, when nothing else runs before its promise settles.\<close>

definition finishTest :: "'db env \<Rightarrow> testdata \<Rightarrow> int \<Rightarrow> ctrl \<Rightarrow> ctrl + ctrl" where
  "finishTest e td now c =
     (case finishTest_sync now c of
        Inl c1 \<Rightarrow> Inl c1
      | Inr c1 \<Rightarrow> Inr (finishTest_grade e td c1))"

text \<open>
  A question makes the loop wait (\<open>await db.waitReady\<close>, \<open>await sha256(...)\<close>) unless it
  is an SQL question without a usable text or a multiple-choice question whose answer is a
  non-empty string.
\<close>

fun awaits :: "question \<Rightarrow> answer option \<Rightarrow> bool" where
  "awaits q None = (qtype q \<noteq> ''sql-select'')"
| "awaits q (Some (AList xs)) = (qtype q \<noteq> ''sql-select'')"
| "awaits q (Some (AText s)) =
     (if qtype q = ''sql-select'' then \<not> (s = [] \<or> trim s = []) else s = [])"

text \<open>
  A call \<open>finishTest()\<close> that is not awaited, as in \<open>updateTimer\<close> and in the click handler
  of the finish button. It returns to its caller at the first \<open>await\<close>; the rest of the
  call (\<open>resume_finishTest\<close>) runs in a later turn of the event loop.
\<close>

definition call_finishTest :: "'db env \<Rightarrow> testdata \<Rightarrow> int \<Rightarrow> ctrl \<Rightarrow> ctrl" where
  "call_finishTest e td now c =
     (case finishTest_sync now c of
        Inl c1 \<Rightarrow> c1
      | Inr c1 \<Rightarrow>
          if list_ex (\<lambda>q. awaits q (answers (state c1) (qid q))) (questions (state c1))
          then c1\<lparr>pending := Suc (pending c1)\<rparr>
          else finishTest_grade e td c1)"

definition resume_finishTest :: "'db env \<Rightarrow> testdata \<Rightarrow> ctrl \<Rightarrow> ctrl" where
  "resume_finishTest e td c =
     (if pending c = 0 then c else (finishTest_grade e td c)\<lparr>pending := pending c - 1\<rparr>)"

subsection \<open>Timer\<close>

definition limitMs :: "testdata \<Rightarrow> int" where
  "limitMs td = (case time_limit td of None \<Rightarrow> 20 | Some t \<Rightarrow> if t = 0 then 20 else t) * 60 * 1000"

definition formatRemaining :: "int \<Rightarrow> string" where
  "formatRemaining remaining =
     padStart2 (toString_nat (nat (remaining div 60000))) @ '':'' @
     padStart2 (toString_nat (nat ((remaining mod 60000) div 1000)))"

definition updateTimer :: "'db env \<Rightarrow> testdata \<Rightarrow> int \<Rightarrow> ctrl \<Rightarrow> ctrl" where
  "updateTimer e td now c =
     (if status c \<noteq> IN_PROGRESS then c
      else
        let elapsed = now - startTime (state c);
            remaining = limitMs td - elapsed
        in if remaining \<le> 0 then
             (let c1 = call_finishTest e td now (c\<lparr>timeLeft := ''00:00''\<rparr>)
              in c1\<lparr>alerts := alerts c1 @ [TimeUp]\<rparr>)
           else c\<lparr>timeLeft := formatRemaining remaining\<rparr>)"

text \<open>The callback of an interval timer runs only while that timer is live.\<close>

definition tick :: "'db env \<Rightarrow> testdata \<Rightarrow> int \<Rightarrow> ctrl \<Rightarrow> ctrl" where
  "tick e td now c = (if intervals c = [] then c else updateTimer e td now c)"

definition startTest :: "'db env \<Rightarrow> testdata \<Rightarrow> int \<Rightarrow> ctrl \<Rightarrow> ctrl" where
  "startTest e td now c =
     setInterval (updateTimer e td now
       (addCheatListeners
          (c\<lparr>state := (state c)\<lparr>startTime := now, lastQuestionEntryTime := now\<rparr>,
             status := IN_PROGRESS\<rparr>)))"

subsection \<open>IntegrityMonitor\<close>

text \<open>
  \<open>maxCheats && state.value.cheatAttempts >= maxCheats\<close>: an absent or zero maximum is
  falsy.
\<close>

definition reachedMax :: "int option \<Rightarrow> int \<Rightarrow> bool" where
  "reachedMax maxCheats attempts =
     (case maxCheats of None \<Rightarrow> False | Some m \<Rightarrow> m \<noteq> 0 \<and> attempts \<ge> m)"

text \<open>
  \<open>hidden\<close> is \<open>document.visibilityState === "hidden"\<close> and \<open>focused\<close> is
  \<open>document.hasFocus()\<close>.
\<close>

definition checkFocus :: "testdata \<Rightarrow> int \<Rightarrow> bool \<Rightarrow> bool \<Rightarrow> ctrl \<Rightarrow> ctrl" where
  "checkFocus td now hidden focused c =
     (if status c \<noteq> IN_PROGRESS then c
      else if hidden \<or> \<not> focused then
        (let s1 = (state c)\<lparr>cheatAttempts := cheatAttempts (state c) + 1,
                             cheatLogs := cheatLogs (state c) @ [CheatLog now]\<rparr>;
             maxCheats = max_cheat_attempts td
         in if reachedMax maxCheats (cheatAttempts s1) then
              removeCheatListeners
                (c\<lparr>state := s1\<lparr>isBlocked := True, endTime := now\<rparr>, status := BLOCKED\<rparr>)
            else c\<lparr>state := s1, alerts := alerts c @ [CheatWarning (cheatAttempts s1) maxCheats]\<rparr>)
      else c)"

text \<open>The two events reach \<open>checkFocus\<close> only while the listeners are registered.\<close>

definition focusEvent :: "testdata \<Rightarrow> int \<Rightarrow> bool \<Rightarrow> bool \<Rightarrow> ctrl \<Rightarrow> ctrl" where
  "focusEvent td now hidden focused c =
     (if listeners c then checkFocus td now hidden focused c else c)"

subsection \<open>QuestionPool\<close>

text \<open>
  \<open>xs.sort(() => Math.random() - 0.5)\<close> leaves the array in an order the browser and the
  random numbers decide. The three places that shuffle are the three fields of \<open>rng\<close>;
  the option lists are shuffled per question.
\<close>

record rng =
  shufflePool :: "question list \<Rightarrow> question list"
  shuffleSelected :: "question list \<Rightarrow> question list"
  shuffleOptions :: "string \<Rightarrow> qoption list \<Rightarrow> qoption list"

record props =
  requiredIds :: "string list option"
  p_count :: int

fun findIndex :: "('a \<Rightarrow> bool) \<Rightarrow> 'a list \<Rightarrow> nat option" where
  "findIndex P [] = None"
| "findIndex P (x # xs) = (if P x then Some 0 else map_option Suc (findIndex P xs))"

text \<open>The body of \<open>props.requiredIds.forEach\<close>, on the pair of \<open>pool\<close> and \<open>selected\<close>.\<close>

definition pickRequired :: "question list \<times> question list \<Rightarrow> string \<Rightarrow> question list \<times> question list" where
  "pickRequired ps rid =
     (case ps of
        (pool, selected) \<Rightarrow>
          (case findIndex (\<lambda>q. qid q = rid) pool of
             None \<Rightarrow> (pool, selected)
           | Some qIndex \<Rightarrow> (take qIndex pool @ drop (Suc qIndex) pool, selected @ [pool ! qIndex])))"

text \<open>
  The block guarded by \<open>props.requiredIds && props.requiredIds.length > 0\<close>: what is left
  of the pool, and the required questions that were found.
\<close>

definition requiredPart :: "testdata \<Rightarrow> props \<Rightarrow> question list \<times> question list" where
  "requiredPart td p =
     (case requiredIds p of
        None \<Rightarrow> (td_questions td, [])
      | Some ids \<Rightarrow>
          if length ids > 0 then foldl pickRequired (td_questions td, []) ids
          else (td_questions td, []))"

text \<open>The questions chosen for the attempt, in their final order.\<close>

definition selectQuestions :: "rng \<Rightarrow> testdata \<Rightarrow> props \<Rightarrow> question list" where
  "selectQuestions r td p =
     (case requiredPart td p of
        (pool, selected) \<Rightarrow>
          let needed = p_count p - int (length selected) in
          shuffleSelected r
            (if needed > 0 then selected @ take (nat needed) (shufflePool r pool) else selected))"

text \<open>The body of \<open>selected.forEach\<close>.\<close>

definition initQuestion :: "state \<Rightarrow> question \<Rightarrow> state" where
  "initQuestion s q =
     s\<lparr>answers := (answers s)(qid q \<mapsto> (if qtype q = ''sql-select'' then AText [] else AList [])),
       questionTimings := (questionTimings s)(qid q \<mapsto> Num 0),
       maxScore := maxScore s + points q\<rparr>"

definition shuffleOpts :: "rng \<Rightarrow> question \<Rightarrow> question" where
  "shuffleOpts r q =
     (case options q of None \<Rightarrow> q | Some os \<Rightarrow> q\<lparr>options := Some (shuffleOptions r (qid q) os)\<rparr>)"

text \<open>
  The shuffled option lists are seen through \<open>state.questions\<close>; that the objects of
  \<open>testData.questions\<close> are the same objects is not modelled.
\<close>

definition prepareQuestions :: "rng \<Rightarrow> testdata \<Rightarrow> props \<Rightarrow> state \<Rightarrow> state" where
  "prepareQuestions r td p s =
     (let selected = selectQuestions r td p
      in (foldl initQuestion (s\<lparr>questions := selected\<rparr>) selected)
           \<lparr>questions := map (shuffleOpts r) selected\<rparr>)"

subsection \<open>SessionStore and mounting\<close>

text \<open>
  The item of localStorage under the key of this quiz: absent, a text \<open>JSON.parse\<close>
  rejects, or a session. A session written by the watcher is read back as it was written.
\<close>

datatype stored = Absent | Corrupt | Stored state

text \<open>
  \<open>onMounted\<close>. \<open>isChrome\<close> is the browser test; \<open>fetched\<close> is the quiz document, \<open>None\<close>
  when the response is not ok or the request or its decoding raises.
\<close>

definition onMounted :: "'db env \<Rightarrow> rng \<Rightarrow> props \<Rightarrow> bool \<Rightarrow> testdata option \<Rightarrow> stored \<Rightarrow> int \<Rightarrow> ctrl \<Rightarrow> ctrl" where
  "onMounted e r p isChrome fetched saved now c =
     (if \<not> isChrome then c
      else
        case fetched of
          None \<Rightarrow> c\<lparr>status := INIT\<rparr>
        | Some td \<Rightarrow>
            let c1 = c\<lparr>status := LOADING, testData := Some td\<rparr> in
            (case saved of
               Absent \<Rightarrow> c1\<lparr>state := prepareQuestions r td p (state c1), status := READY\<rparr>
             | Corrupt \<Rightarrow> c1\<lparr>status := INIT\<rparr>
             | Stored sv \<Rightarrow>
                 let s1 = (if reachedMax (max_cheat_attempts td) (cheatAttempts sv)
                           then sv\<lparr>isBlocked := True\<rparr> else sv);
                     c2 = c1\<lparr>state := s1\<rparr>
                 in if isBlocked s1 then c2\<lparr>status := COMPLETED\<rparr>
                    else if endTime s1 > 0 then c2\<lparr>status := COMPLETED\<rparr>
                    else if startTime s1 > 0 then
                      setInterval (updateTimer e td now (c2\<lparr>status := IN_PROGRESS\<rparr>))
                    else c2\<lparr>status := READY\<rparr>))"

text \<open>
  The page: the component and the stored item. The deep watcher on \<open>state\<close> writes the
  session to the store after every turn that changed it.
\<close>

record page =
  comp :: ctrl
  storage :: stored

definition persist :: "ctrl \<Rightarrow> page \<Rightarrow> page" where
  "persist c w =
     \<lparr> comp = c, storage = (if state c = state (comp w) then storage w else Stored (state c)) \<rparr>"

text \<open>
  The pages that can arise. Every handler may run in any order and at any clock reading,
  also where the template would hide its button, so the set is no smaller than what a
  browser can produce. A reload replaces the component and keeps the store; the quiz
  document is fetched anew at every mount and may have changed.
\<close>

inductive reachable :: "'db env \<Rightarrow> page \<Rightarrow> bool" for e :: "'db env" where
  opened: "reachable e \<lparr> comp = initial_ctrl, storage = Absent \<rparr>"
| reloaded: "reachable e w \<Longrightarrow> reachable e (w\<lparr>comp := initial_ctrl\<rparr>)"
| mounted: "reachable e w \<Longrightarrow>
     reachable e (persist (onMounted e r p isChrome fetched (storage w) now (comp w)) w)"
| started: "reachable e w \<Longrightarrow> testData (comp w) = Some td \<Longrightarrow>
     reachable e (persist (startTest e td now (comp w)) w)"
| went_next: "reachable e w \<Longrightarrow> nextQuestion now (state (comp w)) = Some s \<Longrightarrow>
     reachable e (persist ((comp w)\<lparr>state := s\<rparr>) w)"
| went_prev: "reachable e w \<Longrightarrow> prevQuestion now (state (comp w)) = Some s \<Longrightarrow>
     reachable e (persist ((comp w)\<lparr>state := s\<rparr>) w)"
| answered: "reachable e w \<Longrightarrow>
     reachable e (persist ((comp w)\<lparr>state := (state (comp w))\<lparr>answers := (answers (state (comp w)))(k \<mapsto> a)\<rparr>\<rparr>) w)"
| ticked: "reachable e w \<Longrightarrow> testData (comp w) = Some td \<Longrightarrow>
     reachable e (persist (tick e td now (comp w)) w)"
| focus_changed: "reachable e w \<Longrightarrow> testData (comp w) = Some td \<Longrightarrow>
     reachable e (persist (focusEvent td now hidden focused (comp w)) w)"
| finish_called: "reachable e w \<Longrightarrow> testData (comp w) = Some td \<Longrightarrow>
     reachable e (persist (call_finishTest e td now (comp w)) w)"
| finish_resumed: "reachable e w \<Longrightarrow> testData (comp w) = Some td \<Longrightarrow>
     reachable e (persist (resume_finishTest e td (comp w)) w)"
| view_changed: "reachable e w \<Longrightarrow> st = BLOCKED \<or> st = COMPLETED \<or> st = COMPLETED_VIEW \<Longrightarrow>
     reachable e (w\<lparr>comp := (comp w)\<lparr>status := st\<rparr>\<rparr>)"

subsection \<open>Notions used to state the properties\<close>

text \<open>The result of a counting query: one row whose column \<open>cnt\<close> holds the count.\<close>

definition cntRow :: "nat \<Rightarrow> row list" where
  "cntRow n = [[(''cnt'', SqlInt (int n))]]"

text \<open>The required ids of the props, none when the prop is absent.\<close>

definition required_ids :: "props \<Rightarrow> string list" where
  "required_ids p = (case requiredIds p of None \<Rightarrow> [] | Some ids \<Rightarrow> ids)"

text \<open>The violation counter and the violation log of a session, and their agreement.\<close>

definition tally :: "state \<Rightarrow> int \<times> logline list" where
  "tally s = (cheatAttempts s, cheatLogs s)"

definition tally_ok :: "state \<Rightarrow> bool" where
  "tally_ok s = (cheatAttempts s = int (length (cheatLogs s)))"

definition stored_ok :: "stored \<Rightarrow> bool" where
  "stored_ok st = (case st of Stored s \<Rightarrow> tally_ok s | _ \<Rightarrow> True)"

subsection \<open>The embedded database\<close>

text \<open>
  Modelled from the spec: the embedded SQL engine (PGlite) is a library outside the
  repository; the spec treats it as a capability that accepts a statement and returns
  rows or fails, and says of EXCEPT ALL that it is the difference of multisets, which
  keeps duplicates. The model reads one compound statement, the counting query
  \<open>SELECT count(*) as cnt FROM ((a) EXCEPT ALL (b)) as diff\<close>, as PostgreSQL reads it:
  a line comment \<open>--\<close> runs to the end of its line, an operand ends at the parenthesis
  that closes it, and an operand is not empty and holds no semicolon. String literals are
  not read. Every other statement is left to \<open>run\<close>,
  the rows the statement returns on a database, \<open>None\<close> when the database rejects it. A
  query leaves the database as it was.
\<close>

fun uncomment :: "string \<Rightarrow> string" and skipLine :: "string \<Rightarrow> string" where
  "uncomment (c # d # cs) = (if c = CHR ''-'' \<and> d = CHR ''-'' then skipLine cs else c # uncomment (d # cs))"
| "uncomment [c] = [c]"
| "uncomment [] = []"
| "skipLine (c # cs) = (if c = CHR 0x0A then c # uncomment cs else skipLine cs)"
| "skipLine [] = []"

definition stripPrefix :: "string \<Rightarrow> string \<Rightarrow> string option" where
  "stripPrefix p s = (if take (length p) s = p then Some (drop (length p) s) else None)"

text \<open>
  \<open>closes d s\<close>: the text up to the parenthesis that closes the one \<open>s\<close> stands in,
  \<open>d\<close> parentheses being open inside it, and the text after that parenthesis.
\<close>

fun closes :: "nat \<Rightarrow> string \<Rightarrow> (string \<times> string) option" where
  "closes d [] = None"
| "closes d (c # cs) =
     (if c = CHR 0x29 then
        (case d of 0 \<Rightarrow> Some ([], cs) | Suc k \<Rightarrow> map_option (\<lambda>(x, r). (c # x, r)) (closes k cs))
      else if c = CHR 0x28 then map_option (\<lambda>(x, r). (c # x, r)) (closes (Suc d) cs)
      else map_option (\<lambda>(x, r). (c # x, r)) (closes d cs))"

definition countingOperands :: "string \<Rightarrow> (string \<times> string) option" where
  "countingOperands t =
     (case stripPrefix ''SELECT count(*) as cnt'' t of
        None \<Rightarrow> None
      | Some t1 \<Rightarrow>
          (case stripPrefix ''FROM (('' (trimStart t1) of
             None \<Rightarrow> None
           | Some t2 \<Rightarrow>
               (case closes 0 t2 of
                  None \<Rightarrow> None
                | Some (a, t3) \<Rightarrow>
                    (case stripPrefix '' EXCEPT ALL ('' t3 of
                       None \<Rightarrow> None
                     | Some t4 \<Rightarrow>
                         (case closes 0 t4 of
                            None \<Rightarrow> None
                          | Some (b, t5) \<Rightarrow>
                              if t5 = '') as diff'' \<and> a \<noteq> [] \<and> b \<noteq> [] \<and>
                                 CHR '';'' \<notin> set a \<and> CHR '';'' \<notin> set b
                              then Some (a, b) else None)))))"

text \<open>The rows of \<open>xs\<close> EXCEPT ALL \<open>ys\<close>: every row of \<open>ys\<close> cancels one equal row of \<open>xs\<close>.\<close>

definition exceptAll :: "'a list \<Rightarrow> 'a list \<Rightarrow> 'a list" where
  "exceptAll xs ys = fold remove1 ys xs"

definition pg_query :: "('db \<Rightarrow> string \<Rightarrow> row list option) \<Rightarrow> 'db \<Rightarrow> string \<Rightarrow> ('db \<times> row list) option" where
  "pg_query run db sql =
     (case countingOperands (trim (uncomment sql)) of
        Some (a, b) \<Rightarrow>
          (case run db a of
             None \<Rightarrow> None
           | Some rows_a \<Rightarrow>
               (case run db b of
                  None \<Rightarrow> None
                | Some rows_b \<Rightarrow> Some (db, cntRow (length (exceptAll rows_a rows_b)))))
      | None \<Rightarrow> map_option (Pair db) (run db sql))"

text \<open>
  The environment of the grader over such a database: \<open>db0\<close> is the empty database,
  \<open>ex\<close> runs a setup statement, \<open>run\<close> a statement that is not a counting query.
\<close>

definition pglite :: "'db \<Rightarrow> ('db \<Rightarrow> string \<Rightarrow> 'db option) \<Rightarrow> ('db \<Rightarrow> string \<Rightarrow> row list option)
    \<Rightarrow> (string \<Rightarrow> string) \<Rightarrow> 'db env" where
  "pglite db0 ex run digest = \<lparr> fresh = db0, exec = ex, query = pg_query run, sha256 = digest \<rparr>"





subsection \<open>Concrete quizzes and sessions\<close>

text \<open>
  A database over the four setup statements below: a database is the list of the setup
  statements run so far, a statement that is not one of the four is rejected, and once
  all four have run the table \<open>s\<close> holds 1, 1, 2 and the table \<open>r\<close> holds 1, 2, 2. The
  digest is the identity, so a digest can be read.
\<close>

definition demo_setup :: "string list" where
  "demo_setup =
     [''CREATE TABLE s (x int)'', ''INSERT INTO s VALUES (1), (1), (2)'',
      ''CREATE TABLE r (x int)'', ''INSERT INTO r VALUES (1), (2), (2)'']"

definition xrow :: "int \<Rightarrow> row" where
  "xrow n = [(''x'', SqlInt n)]"

definition demo_exec :: "string list \<Rightarrow> string \<Rightarrow> string list option" where
  "demo_exec db sql = (if sql \<in> set demo_setup then Some (db @ [sql]) else None)"

definition demo_run :: "string list \<Rightarrow> string \<Rightarrow> row list option" where
  "demo_run db sql =
     (if list_all (\<lambda>st. st \<in> set db) demo_setup then
        (if sql = ''SELECT x FROM s'' then Some [xrow 1, xrow 1, xrow 2]
         else if sql = ''SELECT x FROM r'' then Some [xrow 1, xrow 2, xrow 2]
         else if sql = ''SELECT x FROM r -- all rows'' then Some [xrow 1, xrow 2, xrow 2]
         else None)
      else None)"

definition demo_env :: "string list env" where
  "demo_env = pglite [] demo_exec demo_run (\<lambda>s. s)"

text \<open>Comparators that leave every array as it is.\<close>

definition demo_rng :: rng where
  "demo_rng =
     \<lparr> shufflePool = (\<lambda>xs. xs), shuffleSelected = (\<lambda>xs. xs), shuffleOptions = (\<lambda>i xs. xs) \<rparr>"

definition demo_q :: question where
  "demo_q =
     \<lparr> qid = ''q1'', qtype = ''sql-select'', qtext = ''rows'', points = 5, options = None,
       correct_hash = [], correct_query = ''SELECT x FROM r;'', sort_required = False,
       init_sql = Some demo_setup, isCorrect = None \<rparr>"


definition mc_q :: question where
  "mc_q =
     \<lparr> qid = ''m1'', qtype = ''multiple-choice'', qtext = ''pick'', points = 10,
       options = Some [\<lparr>opt_id = ''a'', opt_text = ''A''\<rparr>, \<lparr>opt_id = ''b'', opt_text = ''B''\<rparr>],
       correct_hash = ''a,b'', correct_query = [], sort_required = False,
       init_sql = None, isCorrect = None \<rparr>"

text \<open>A quiz of one multiple-choice question, twenty minutes, lockout at two violations.\<close>

definition demo_td :: testdata where
  "demo_td =
     \<lparr> title = ''demo'', time_limit = Some 20, max_cheat_attempts = Some 2,
       grading = [(''5'', 90), (''4'', 70), (''3'', 50)], td_questions = [mc_q] \<rparr>"

text \<open>The same quiz, published again with lockout at the first violation.\<close>

definition strict_td :: testdata where
  "strict_td = demo_td\<lparr>max_cheat_attempts := Some 1\<rparr>"

definition demo_props :: props where
  "demo_props = \<lparr> requiredIds = None, p_count = 1 \<rparr>"

text \<open>
  A first visit: the page is opened, the component mounts and draws the question, the
  test starts at clock reading 1000000.
\<close>

definition c_ready :: ctrl where
  "c_ready = onMounted demo_env demo_rng demo_props True (Some demo_td) Absent 0 initial_ctrl"

definition c_started :: ctrl where
  "c_started = startTest demo_env demo_td 1000000 c_ready"

text \<open>The page is loaded again five minutes later, with the session of \<open>c_started\<close> stored.\<close>

definition c_resumed :: ctrl where
  "c_resumed =
     onMounted demo_env demo_rng demo_props True (Some demo_td) (Stored (state c_started)) 1300000 initial_ctrl"

text \<open>
  The same quiz with the SQL question in place of the multiple-choice one. The student
  starts at 1000000 and types the reference query; the page is loaded again one
  millisecond after the twenty minutes have passed.
\<close>

definition sql_td :: testdata where
  "sql_td = demo_td\<lparr>td_questions := [demo_q]\<rparr>"

definition c_sql_started :: ctrl where
  "c_sql_started =
     startTest demo_env sql_td 1000000
       (onMounted demo_env demo_rng demo_props True (Some sql_td) Absent 0 initial_ctrl)"

definition c_sql_answered :: ctrl where
  "c_sql_answered =
     c_sql_started\<lparr>state := (state c_sql_started)\<lparr>answers :=
        (answers (state c_sql_started))(''q1'' \<mapsto> AText ''SELECT x FROM r'')\<rparr>\<rparr>"

definition c_expired :: ctrl where
  "c_expired =
     onMounted demo_env demo_rng demo_props True (Some sql_td) (Stored (state c_sql_answered)) 2200001
       initial_ctrl"

text \<open>
  The student presses the finish button at 1500000; the grading waits for the database,
  so the overlay with the button is still shown.
\<close>

definition c_finishing :: ctrl where
  "c_finishing = call_finishTest demo_env sql_td 1500000 c_sql_answered"

text \<open>A session of two questions, the student on the last one since 4000.\<close>

definition nav_state :: state where
  "nav_state =
     initial_state\<lparr> questions := [mc_q, demo_q],
       questionTimings := [''m1'' \<mapsto> Num 0, ''q1'' \<mapsto> Num 0], currentIndex := 1,
       startTime := 1000, lastQuestionEntryTime := 4000 \<rparr>"

text \<open>
  A pool of three questions worth 1, 2 and 3 points; the page asks for one question and
  requires a, b and an id the pool does not have.
\<close>

definition pool_q :: "string \<Rightarrow> int \<Rightarrow> question" where
  "pool_q i n = mc_q\<lparr>qid := i, points := n\<rparr>"

definition pool_td :: testdata where
  "pool_td = demo_td\<lparr>td_questions := [pool_q ''a'' 1, pool_q ''b'' 2, pool_q ''c'' 3]\<rparr>"

definition pool_props :: props where
  "pool_props = \<lparr> requiredIds = Some [''a'', ''b'', ''zz''], p_count = 1 \<rparr>"

text \<open>
  The pages of a visit: opened, mounted, started, one loss of focus at 1100000 (a warning,
  the maximum being two), then the page loaded again after the quiz was published with
  the maximum one.
\<close>

definition w_opened :: page where
  "w_opened = \<lparr> comp = initial_ctrl, storage = Absent \<rparr>"

definition w_ready :: page where
  "w_ready =
     persist (onMounted demo_env demo_rng demo_props True (Some demo_td) (storage w_opened) 0 (comp w_opened))
       w_opened"

definition w_started :: page where
  "w_started = persist (startTest demo_env demo_td 1000000 (comp w_ready)) w_ready"

definition w_warned :: page where
  "w_warned = persist (focusEvent demo_td 1100000 True False (comp w_started)) w_started"

definition w_reloaded :: page where
  "w_reloaded = w_warned\<lparr>comp := initial_ctrl\<rparr>"

definition w_relocked :: page where
  "w_relocked =
     persist (onMounted demo_env demo_rng demo_props True (Some strict_td) (storage w_reloaded) 1300000
                (comp w_reloaded))
       w_reloaded"

section \<open>Properties\<close>

subsection \<open>Hasher: the order of the selected ids does not matter\<close>

text \<open>
  C8. Two selections with the same ids, in whatever order the student ticked them, give
  the same digest; it is the digest of the ids sorted and joined by commas, and the
  multiple-choice verdict compares exactly that digest with the reference digest of the
  question.
\<close>

theorem mc_hash_order_independent:
  assumes "mset xs = mset ys"
  shows "mcHash d xs = mcHash d ys \<and> mcHash d ys = d (join '','' (sort xs)) \<and>
         fst (gradeChoice d q (Some (AList ys))) = (d (join '','' (sort xs)) = correct_hash q)"
proof -
  have "sort xs = sort ys"
    using assms by (metis properties_for_sort sorted_sort mset_sort)
  then show ?thesis by (simp add: mcHash_def)
qed

text \<open>The selections b, a and a, b under the identity digest: both give the text a,b.\<close>

theorem mc_hash_order_independent_witness:
  "mset [''b'', ''a''] = mset [''a'', ''b''] \<and>
   mcHash (\<lambda>s. s) [''b'', ''a''] = mcHash (\<lambda>s. s) [''a'', ''b''] \<and>
   mcHash (\<lambda>s. s) [''a'', ''b''] = ''a,b''"
  using mc_hash_order_independent [of "[''b'', ''a'']" "[''a'', ''b'']" "\<lambda>s. s"]
  by (simp add: less_eq_char_def)

subsection \<open>QueryGrader\<close>

lemma trim_Nil [simp]: "trim [] = []"
  by (simp add: trim_def trimEnd_def trimStart.simps trimStartRev.simps)































subsection \<open>Navigation\<close>

text \<open>
  C9. In a session whose index points at a selected question that has a timing bucket,
  \<open>nextQuestion\<close> and \<open>prevQuestion\<close> return; they first add the time since the current
  question was entered to the bucket of that question; the index moves by one and is
  clamped to 0 and length - 1; and whenever the index moves, as it does whenever the
  template offers the button (next before the last question, previous after the first),
  the entry time of the question that is then current is stamped with the clock reading.
\<close>

theorem navigation_records_time_and_clamps:
  assumes lo: "0 \<le> currentIndex s" and hi: "currentIndex s < int (length (questions s))"
      and bucket: "questionTimings s (qid (questions s ! nat (currentIndex s))) = Some (Num t)"
  shows "\<exists>s1 s2. nextQuestion now s = Some s1 \<and> prevQuestion now s = Some s2
       \<and> questionTimings s1 = (questionTimings s)(qid (questions s ! nat (currentIndex s)) \<mapsto>
                                  Num (t + (now - lastQuestionEntryTime s)))
       \<and> questionTimings s2 = questionTimings s1
       \<and> currentIndex s1 = min (currentIndex s + 1) (int (length (questions s)) - 1)
       \<and> currentIndex s2 = max (currentIndex s - 1) 0
       \<and> 0 \<le> currentIndex s1 \<and> currentIndex s1 \<le> int (length (questions s1)) - 1
       \<and> 0 \<le> currentIndex s2 \<and> currentIndex s2 \<le> int (length (questions s2)) - 1
       \<and> (currentIndex s < int (length (questions s)) - 1 \<longrightarrow>
            currentIndex s1 = currentIndex s + 1 \<and> lastQuestionEntryTime s1 = now)
       \<and> (0 < currentIndex s \<longrightarrow>
            currentIndex s2 = currentIndex s - 1 \<and> lastQuestionEntryTime s2 = now)
       \<and> (currentIndex s1 \<noteq> currentIndex s \<longrightarrow> lastQuestionEntryTime s1 = now)
       \<and> (currentIndex s2 \<noteq> currentIndex s \<longrightarrow> lastQuestionEntryTime s2 = now)"
  using assms by (auto simp: nextQuestion_def prevQuestion_def recordTime_def Let_def)

text \<open>
  From the last of two questions, entered at 4000, at clock reading 9000: previous moves
  to the first question and stamps 9000, after 5000 were added to the bucket of the
  second; next keeps the index at 1.
\<close>

theorem navigation_records_time_and_clamps_witness:
  "map_option currentIndex (nextQuestion 9000 nav_state) = Some 1 \<and>
   map_option currentIndex (prevQuestion 9000 nav_state) = Some 0 \<and>
   map_option (\<lambda>s. questionTimings s ''q1'') (prevQuestion 9000 nav_state) = Some (Some (Num 5000)) \<and>
   map_option lastQuestionEntryTime (prevQuestion 9000 nav_state) = Some 9000"
  using navigation_records_time_and_clamps [of nav_state 0 9000]
  by (auto simp: nav_state_def initial_state_def mc_q_def demo_q_def)

subsection \<open>QuestionPool\<close>

lemma findIndex_None: "findIndex P xs = None \<longleftrightarrow> (\<forall>x\<in>set xs. \<not> P x)"
  by (induction xs) auto

lemma findIndex_Some: "findIndex P xs = Some i \<Longrightarrow> i < length xs \<and> P (xs ! i)"
  by (induction xs arbitrary: i) (auto split: if_splits)

lemma mset_remove_nth: "i < length xs \<Longrightarrow> mset (take i xs @ drop (Suc i) xs) + {#xs ! i#} = mset xs"
proof -
  assume "i < length xs"
  then have "take i xs @ xs ! i # drop (Suc i) xs = xs" by (rule id_take_nth_drop [symmetric])
  then have "mset (take i xs @ xs ! i # drop (Suc i) xs) = mset xs" by simp
  then show ?thesis by simp
qed

lemma pickRequired_mset:
  "pickRequired (pool, sel) rid = (pool', sel') \<Longrightarrow> mset pool' + mset sel' = mset pool + mset sel"
  by (auto simp: pickRequired_def split: option.splits dest!: findIndex_Some mset_remove_nth)

lemma foldl_pickRequired_mset:
  "foldl pickRequired (pool, sel) ids = (pool', sel') \<Longrightarrow> mset pool' + mset sel' = mset pool + mset sel"
proof (induction ids arbitrary: pool sel)
  case Nil
  then show ?case by simp
next
  case (Cons rid ids)
  obtain pool1 sel1 where step: "pickRequired (pool, sel) rid = (pool1, sel1)" by fastforce
  with Cons.prems have "foldl pickRequired (pool1, sel1) ids = (pool', sel')" by simp
  from Cons.IH [OF this] pickRequired_mset [OF step] show ?case by simp
qed


lemma pickRequired_sel_mono: "pickRequired (pool, sel) rid = (pool', sel') \<Longrightarrow> set sel \<subseteq> set sel'"
  by (auto simp: pickRequired_def split: option.splits)

lemma foldl_pickRequired_sel_mono:
  "foldl pickRequired (pool, sel) ids = (pool', sel') \<Longrightarrow> set sel \<subseteq> set sel'"
proof (induction ids arbitrary: pool sel)
  case Nil
  then show ?case by simp
next
  case (Cons rid ids)
  obtain pool1 sel1 where step: "pickRequired (pool, sel) rid = (pool1, sel1)" by fastforce
  with Cons.prems have "foldl pickRequired (pool1, sel1) ids = (pool', sel')" by simp
  from Cons.IH [OF this] pickRequired_sel_mono [OF step] show ?case by blast
qed

lemma pickRequired_found:
  assumes "pickRequired (pool, sel) rid = (pool1, sel1)" and "rid \<in> qid ` set pool"
  shows "rid \<in> qid ` set sel1"
proof -
  from assms(2) have "findIndex (\<lambda>q. qid q = rid) pool \<noteq> None"
    by (auto simp: findIndex_None)
  then obtain i where i: "findIndex (\<lambda>q. qid q = rid) pool = Some i" by blast
  from findIndex_Some [OF i] assms(1) i show ?thesis
    by (auto simp: pickRequired_def)
qed

lemma foldl_pickRequired_includes:
  assumes "foldl pickRequired (pool, sel) ids = (pool', sel')"
      and "rid \<in> set ids" and "rid \<in> qid ` (set pool \<union> set sel)"
  shows "rid \<in> qid ` set sel'"
  using assms
proof (induction ids arbitrary: pool sel)
  case Nil
  then show ?case by simp
next
  case (Cons r0 ids)
  obtain pool1 sel1 where step: "pickRequired (pool, sel) r0 = (pool1, sel1)" by fastforce
  with Cons.prems have rest: "foldl pickRequired (pool1, sel1) ids = (pool', sel')" by simp
  have same: "set pool1 \<union> set sel1 = set pool \<union> set sel"
    using pickRequired_mset [OF step] by (metis set_mset_mset set_mset_union)
  show ?case
  proof (cases "rid \<in> qid ` set sel1")
    case True
    with foldl_pickRequired_sel_mono [OF rest] show ?thesis by blast
  next
    case False
    have "rid \<noteq> r0"
    proof
      assume eq: "rid = r0"
      from Cons.prems(3) have "r0 \<in> qid ` set pool \<or> r0 \<in> qid ` set sel" using eq by blast
      then show False
      proof
        assume "r0 \<in> qid ` set pool"
        from pickRequired_found [OF step this] False eq show False by simp
      next
        assume "r0 \<in> qid ` set sel"
        with pickRequired_sel_mono [OF step] False eq show False by blast
      qed
    qed
    with Cons.prems(2) have "rid \<in> set ids" by simp
    moreover have "rid \<in> qid ` (set pool1 \<union> set sel1)" using Cons.prems(3) same by simp
    ultimately show ?thesis using Cons.IH [OF rest] by blast
  qed
qed

lemma distinct_map_remove_mid:
  assumes "distinct (map f (A @ x # B))"
  shows "distinct (map f (A @ B))" and "f ` set (A @ B) = f ` set (A @ x # B) - {f x}"
proof -
  show "distinct (map f (A @ B))" using assms by simp
  have "f x \<notin> f ` set A" "f x \<notin> f ` set B" using assms by auto
  then show "f ` set (A @ B) = f ` set (A @ x # B) - {f x}"
    by (auto simp: image_iff)
qed

lemma remove_nth_distinct:
  assumes "distinct (map f xs)" and "i < length xs"
  shows "distinct (map f (take i xs @ drop (Suc i) xs))"
    and "f ` set (take i xs @ drop (Suc i) xs) = f ` set xs - {f (xs ! i)}"
proof -
  have xs: "take i xs @ xs ! i # drop (Suc i) xs = xs"
    using assms(2) by (rule id_take_nth_drop [symmetric])
  then have d: "distinct (map f (take i xs @ xs ! i # drop (Suc i) xs))"
    using assms(1) by simp
  show "distinct (map f (take i xs @ drop (Suc i) xs))"
    using d by (rule distinct_map_remove_mid(1))
  show "f ` set (take i xs @ drop (Suc i) xs) = f ` set xs - {f (xs ! i)}"
    using distinct_map_remove_mid(2) [OF d] xs by simp
qed

lemma foldl_pickRequired_length:
  assumes "distinct (map qid pool)" and "foldl pickRequired (pool, sel) ids = (pool', sel')"
  shows "length sel' = length sel + card (set ids \<inter> qid ` set pool)"
  using assms
proof (induction ids arbitrary: pool sel)
  case Nil
  then show ?case by simp
next
  case (Cons r0 ids)
  obtain pool1 sel1 where step: "pickRequired (pool, sel) r0 = (pool1, sel1)" by fastforce
  with Cons.prems have rest: "foldl pickRequired (pool1, sel1) ids = (pool', sel')" by simp
  show ?case
  proof (cases "findIndex (\<lambda>q. qid q = r0) pool")
    case None
    then have "r0 \<notin> qid ` set pool" by (auto simp: findIndex_None)
    then have "set (r0 # ids) \<inter> qid ` set pool = set ids \<inter> qid ` set pool" by auto
    moreover have "pool1 = pool" "sel1 = sel" using step None by (simp_all add: pickRequired_def)
    ultimately show ?thesis using Cons.IH [OF _ rest] Cons.prems(1) by simp
  next
    case (Some i)
    from findIndex_Some [OF Some] have i: "i < length pool" "qid (pool ! i) = r0" by simp_all
    have p1: "pool1 = take i pool @ drop (Suc i) pool" and s1: "sel1 = sel @ [pool ! i]"
      using step Some by (simp_all add: pickRequired_def)
    have d1: "distinct (map qid pool1)"
      using remove_nth_distinct(1) [OF Cons.prems(1) i(1)] p1 by simp
    have q1: "qid ` set pool1 = qid ` set pool - {r0}"
      using remove_nth_distinct(2) [OF Cons.prems(1) i(1)] p1 i(2) by simp
    have "r0 \<in> qid ` set pool" using i by (metis imageI nth_mem)
    then have "set (r0 # ids) \<inter> qid ` set pool = insert r0 (set ids \<inter> qid ` set pool1)"
      using q1 by auto
    moreover have "r0 \<notin> set ids \<inter> qid ` set pool1" using q1 by simp
    ultimately have "card (set (r0 # ids) \<inter> qid ` set pool) = Suc (card (set ids \<inter> qid ` set pool1))"
      by simp
    with Cons.IH [OF d1 rest] s1 show ?thesis by simp
  qed
qed

lemma requiredPart_props:
  assumes "requiredPart td p = (pool, sel)"
  shows "mset pool + mset sel = mset (td_questions td)"
    and "rid \<in> set (required_ids p) \<Longrightarrow> rid \<in> qid ` set (td_questions td) \<Longrightarrow> rid \<in> qid ` set sel"
    and "distinct (map qid (td_questions td)) \<Longrightarrow>
         length sel = card (set (required_ids p) \<inter> qid ` set (td_questions td))"
proof -
  have f: "foldl pickRequired (td_questions td, []) (required_ids p) = (pool, sel)"
    using assms by (auto simp: requiredPart_def required_ids_def split: option.splits if_splits)
  show "mset pool + mset sel = mset (td_questions td)"
    using foldl_pickRequired_mset [OF f] by simp
  show "rid \<in> qid ` set sel" if "rid \<in> set (required_ids p)" "rid \<in> qid ` set (td_questions td)"
    using foldl_pickRequired_includes [OF f that(1)] that(2) by simp
  show "length sel = card (set (required_ids p) \<inter> qid ` set (td_questions td))"
    if "distinct (map qid (td_questions td))"
    using foldl_pickRequired_length [OF that f] by simp
qed

lemma distinct_map_submset:
  assumes "mset xs \<subseteq># mset ys" and "distinct (map f ys)"
  shows "distinct (map f xs)"
proof -
  obtain C where C: "mset ys = mset xs + C"
    using assms(1) by (auto simp: mset_subset_eq_exists_conv)
  obtain zs where zs: "C = mset zs" using ex_mset [of C] by blast
  have "mset (map f ys) = mset (map f (xs @ zs))"
    using C zs by simp
  then have "distinct (map f ys) = distinct (map f (xs @ zs))"
    by (rule mset_eq_imp_distinct_iff)
  then show ?thesis using assms(2) by simp
qed

lemma maxScore_foldl_initQuestion:
  "maxScore (foldl initQuestion s qs) = maxScore s + sum_list (map points qs)"
  by (induction qs arbitrary: s) (simp_all add: initQuestion_def)


lemma shuffleOpts_fields [simp]: "qid (shuffleOpts r q) = qid q" "points (shuffleOpts r q) = points q"
  by (simp_all add: shuffleOpts_def split: option.splits)

lemma mset_take_sub: "mset (take n xs) \<subseteq># mset xs"
proof -
  have "mset (take n xs) + mset (drop n xs) = mset xs"
    by (simp flip: mset_append)
  then show ?thesis by (metis mset_subset_eq_add_left)
qed

text \<open>
  C7, amended. Let the comparators permute and let the ids of the quiz document be
  distinct. The selection is drawn from the document without repetition; it holds every
  required id that the document has; its length is the larger of the number of required
  ids found and min(count, available), which is min(count, available) whenever count is
  at least the number of required ids found; its ids are distinct; and the session holds
  the selected questions with their ids and points, each point value added to
  \<open>maxScore\<close> exactly once.
\<close>

theorem selection_properties:
  assumes perm1: "\<forall>xs. mset (shufflePool r xs) = mset xs"
      and perm2: "\<forall>xs. mset (shuffleSelected r xs) = mset xs"
      and ids: "distinct (map qid (td_questions td))"
  shows "mset (selectQuestions r td p) \<subseteq># mset (td_questions td)
       \<and> set (required_ids p) \<inter> qid ` set (td_questions td) \<subseteq> qid ` set (selectQuestions r td p)
       \<and> int (length (selectQuestions r td p)) =
           max (int (card (set (required_ids p) \<inter> qid ` set (td_questions td))))
               (min (p_count p) (int (length (td_questions td))))
       \<and> distinct (map qid (selectQuestions r td p))
       \<and> map qid (questions (prepareQuestions r td p s)) = map qid (selectQuestions r td p)
       \<and> map points (questions (prepareQuestions r td p s)) = map points (selectQuestions r td p)
       \<and> maxScore (prepareQuestions r td p s) = maxScore s + sum_list (map points (selectQuestions r td p))"
proof -
  obtain pool sel where rp: "requiredPart td p = (pool, sel)" by fastforce
  define needed where "needed = p_count p - int (length sel)"
  define sel2 where "sel2 = (if needed > 0 then sel @ take (nat needed) (shufflePool r pool) else sel)"
  have sq: "selectQuestions r td p = shuffleSelected r sel2"
    using rp by (simp add: selectQuestions_def sel2_def needed_def Let_def)
  have m_sq: "mset (selectQuestions r td p) = mset sel2" using sq perm2 by simp
  have split_pool: "mset pool + mset sel = mset (td_questions td)"
    using requiredPart_props(1) [OF rp] .
  have m: "length sel = card (set (required_ids p) \<inter> qid ` set (td_questions td))"
    using requiredPart_props(3) [OF rp ids] .
  have len_pool: "length pool + length sel = length (td_questions td)"
    using split_pool by (metis size_mset size_union)
  have len_shuf: "length (shufflePool r pool) = length pool"
    using perm1 by (metis size_mset)
  have sub2: "mset sel2 \<subseteq># mset (td_questions td)"
  proof -
    have "mset (take (nat needed) (shufflePool r pool)) \<subseteq># mset pool"
      using mset_take_sub [of "nat needed" "shufflePool r pool"] perm1 by simp
    then have "mset sel + mset (take (nat needed) (shufflePool r pool)) \<subseteq># mset sel + mset pool"
      by simp
    moreover have "mset sel \<subseteq># mset sel + mset pool" by simp
    ultimately show ?thesis using split_pool by (simp add: sel2_def add.commute)
  qed
  have c1: "mset (selectQuestions r td p) \<subseteq># mset (td_questions td)"
    using sub2 m_sq by simp
  have set_sq: "set (selectQuestions r td p) = set sel2"
    using m_sq by (rule mset_eq_setD)
  have "set sel \<subseteq> set sel2" by (simp add: sel2_def)
  then have c2: "set (required_ids p) \<inter> qid ` set (td_questions td) \<subseteq> qid ` set (selectQuestions r td p)"
    using requiredPart_props(2) [OF rp] set_sq by blast
  have "int (length sel2) = max (int (length sel)) (min (p_count p) (int (length (td_questions td))))"
    using len_pool len_shuf by (auto simp: sel2_def needed_def)
  moreover have "length (selectQuestions r td p) = length sel2"
    using m_sq by (rule mset_eq_length)
  ultimately have c3: "int (length (selectQuestions r td p)) =
           max (int (card (set (required_ids p) \<inter> qid ` set (td_questions td))))
               (min (p_count p) (int (length (td_questions td))))"
    using m by simp
  have c4: "distinct (map qid (selectQuestions r td p))"
    using distinct_map_submset [OF c1 ids] .
  have c5: "map qid (questions (prepareQuestions r td p s)) = map qid (selectQuestions r td p)"
    by (simp add: prepareQuestions_def Let_def comp_def)
  have c6: "map points (questions (prepareQuestions r td p s)) = map points (selectQuestions r td p)"
    by (simp add: prepareQuestions_def Let_def comp_def)
  have c7: "maxScore (prepareQuestions r td p s) = maxScore s + sum_list (map points (selectQuestions r td p))"
    by (simp add: prepareQuestions_def Let_def maxScore_foldl_initQuestion)
  show ?thesis using c1 c2 c3 c4 c5 c6 c7 by blast
qed

text \<open>
  C7 as stated does not hold: one question asked for, three required ids of which
  the pool has two. The id the pool lacks is not selected, and both required questions
  are, so the selection has two questions where min(count, available) is one.
\<close>

theorem selection_misses_unknown_id_and_exceeds_count:
  "''zz'' \<in> set (required_ids pool_props) \<and>
   ''zz'' \<notin> qid ` set (selectQuestions demo_rng pool_td pool_props) \<and>
   map qid (selectQuestions demo_rng pool_td pool_props) = [''a'', ''b''] \<and>
   int (length (selectQuestions demo_rng pool_td pool_props)) \<noteq>
     min (p_count pool_props) (int (length (td_questions pool_td)))"
  by (simp add: required_ids_def pool_props_def pool_td_def pool_q_def selectQuestions_def requiredPart_def
      pickRequired_def demo_rng_def demo_td_def mc_q_def Let_def)

text \<open>The same draw: the two required questions, distinct, worth 1 + 2 points.\<close>

theorem selection_properties_witness:
  "{''a'', ''b''} \<subseteq> qid ` set (selectQuestions demo_rng pool_td pool_props) \<and>
   length (selectQuestions demo_rng pool_td pool_props) = 2 \<and>
   distinct (map qid (selectQuestions demo_rng pool_td pool_props)) \<and>
   maxScore (prepareQuestions demo_rng pool_td pool_props initial_state) = 3"
proof -
  have h1: "\<forall>xs. mset (shufflePool demo_rng xs) = mset xs" by (simp add: demo_rng_def)
  have h2: "\<forall>xs. mset (shuffleSelected demo_rng xs) = mset xs" by (simp add: demo_rng_def)
  have h3: "distinct (map qid (td_questions pool_td))"
    by (simp add: pool_td_def pool_q_def demo_td_def)
  have ev: "map qid (selectQuestions demo_rng pool_td pool_props) = [''a'', ''b'']"
    "map points (selectQuestions demo_rng pool_td pool_props) = [1, 2]"
    by (simp_all add: pool_props_def pool_td_def pool_q_def selectQuestions_def requiredPart_def
      pickRequired_def demo_rng_def demo_td_def mc_q_def Let_def)
  have len: "length (selectQuestions demo_rng pool_td pool_props) = 2"
    using ev(1) by (metis length_map length_Cons list.size(3) numeral_2_eq_2)
  have ids: "qid ` set (selectQuestions demo_rng pool_td pool_props) = {''a'', ''b''}"
    using ev(1) by (metis list.set(1) list.set(2) set_map)
  from selection_properties [OF h1 h2 h3, of pool_props initial_state]
  show ?thesis using ev len ids by (simp add: initial_state_def)
qed

subsection \<open>IntegrityMonitor: the counter and the log\<close>

lemma tally_recordTime: "recordTime now s = Some s' \<Longrightarrow> tally s' = tally s"
  by (auto simp: recordTime_def tally_def Let_def split: if_splits)

lemma tally_nextQuestion: "nextQuestion now s = Some s' \<Longrightarrow> tally s' = tally s"
  by (auto simp: nextQuestion_def tally_def split: option.splits if_splits dest!: tally_recordTime)

lemma tally_prevQuestion: "prevQuestion now s = Some s' \<Longrightarrow> tally s' = tally s"
  by (auto simp: prevQuestion_def tally_def split: option.splits if_splits dest!: tally_recordTime)

lemma state_clearInterval [simp]: "state (clearInterval c) = state c"
  by (simp add: clearInterval_def split: option.splits)

lemma state_setInterval [simp]: "state (setInterval c) = state c"
  by (simp add: setInterval_def)

lemma tally_finishTest_sync:
  "tally (state (case finishTest_sync now c of Inl c1 \<Rightarrow> c1 | Inr c1 \<Rightarrow> c1)) = tally (state c)"
  by (auto simp: finishTest_sync_def Let_def removeCheatListeners_def tally_def
           split: option.splits dest!: tally_recordTime)

lemma tally_finishTest_grade: "tally (state (finishTest_grade e td c)) = tally (state c)"
  by (simp add: finishTest_grade_def tally_def split: prod.splits)

lemma tally_call_finishTest: "tally (state (call_finishTest e td now c)) = tally (state c)"
  using tally_finishTest_sync [of now c]
  by (auto simp: call_finishTest_def tally_finishTest_grade split: sum.splits)

lemma tally_resume_finishTest: "tally (state (resume_finishTest e td c)) = tally (state c)"
  using tally_finishTest_grade [of e td c] by (simp add: resume_finishTest_def tally_def)

lemma tally_updateTimer: "tally (state (updateTimer e td now c)) = tally (state c)"
  using tally_call_finishTest [of e td now "c\<lparr>timeLeft := ''00:00''\<rparr>"]
  by (simp add: updateTimer_def Let_def tally_def)

lemma tally_tick: "tally (state (tick e td now c)) = tally (state c)"
  by (simp add: tick_def tally_updateTimer)

lemma tally_startTest: "tally (state (startTest e td now c)) = tally (state c)"
  by (simp add: startTest_def tally_updateTimer addCheatListeners_def) (simp add: tally_def)

lemma tally_foldl_initQuestion: "tally (foldl initQuestion s qs) = tally s"
  by (induction qs arbitrary: s) (simp_all add: initQuestion_def tally_def)

lemma tally_prepareQuestions: "tally (prepareQuestions r td p s) = tally s"
  using tally_foldl_initQuestion [of "s\<lparr>questions := selectQuestions r td p\<rparr>" "selectQuestions r td p"]
  by (simp add: prepareQuestions_def Let_def tally_def)

lemma tally_ok_cong: "tally s' = tally s \<Longrightarrow> tally_ok s' = tally_ok s"
  by (simp add: tally_def tally_ok_def)

lemma tally_ok_checkFocus: "tally_ok (state c) \<Longrightarrow> tally_ok (state (checkFocus td now hidden focused c))"
  by (auto simp: checkFocus_def Let_def tally_ok_def removeCheatListeners_def)

lemma tally_ok_onMounted:
  assumes "tally_ok (state c)" and "stored_ok saved"
  shows "tally_ok (state (onMounted e r p isChrome fetched saved now c))"
proof (cases saved)
  case Absent
  then show ?thesis using assms tally_ok_cong [OF tally_prepareQuestions]
    by (auto simp: onMounted_def Let_def split: option.splits)
next
  case Corrupt
  then show ?thesis using assms by (auto simp: onMounted_def Let_def split: option.splits)
next
  case (Stored sv)
  then have sv: "tally_ok sv" using assms by (simp add: stored_ok_def)
  have a: "tally_ok (sv\<lparr>isBlocked := True\<rparr>)" using sv by (simp add: tally_ok_def)
  have b: "tally_ok (state (setInterval (updateTimer e td now c')))" if "tally_ok (state c')" for td c'
    using that by (simp add: tally_ok_cong [OF tally_updateTimer])
  show ?thesis using Stored assms sv a
    by (auto simp: onMounted_def Let_def tally_ok_cong [OF tally_updateTimer] split: option.splits)
qed

lemma page_ok_persist:
  "tally_ok (state c) \<Longrightarrow> stored_ok (storage w) \<Longrightarrow>
   tally_ok (state (comp (persist c w))) \<and> stored_ok (storage (persist c w))"
  by (simp add: persist_def stored_ok_def)

lemma tally_checkFocus:
  "tally (state (checkFocus td now hidden focused c)) =
     (if status c = IN_PROGRESS \<and> (hidden \<or> \<not> focused)
      then (cheatAttempts (state c) + 1, cheatLogs (state c) @ [CheatLog now])
      else tally (state c))"
  by (simp add: checkFocus_def Let_def tally_def removeCheatListeners_def)

lemma reachable_tally:
  "reachable e w \<Longrightarrow> tally_ok (state (comp w)) \<and> stored_ok (storage w)"
proof (induction rule: reachable.induct)
  case opened
  then show ?case by (simp add: initial_ctrl_def initial_state_def tally_ok_def stored_ok_def)
next
  case (reloaded w)
  then show ?case by (simp add: initial_ctrl_def initial_state_def tally_ok_def)
next
  case (mounted w r p isChrome fetched now)
  then show ?case by (intro page_ok_persist tally_ok_onMounted) simp_all
next
  case (started w td now)
  then show ?case by (intro page_ok_persist) (simp_all add: tally_ok_cong [OF tally_startTest])
next
  case (went_next w now s)
  then show ?case by (intro page_ok_persist) (simp_all add: tally_ok_cong [OF tally_nextQuestion])
next
  case (went_prev w now s)
  then show ?case by (intro page_ok_persist) (simp_all add: tally_ok_cong [OF tally_prevQuestion])
next
  case (answered w k a)
  then show ?case by (intro page_ok_persist) (simp_all add: tally_ok_def)
next
  case (ticked w td now)
  then show ?case by (intro page_ok_persist) (simp_all add: tally_ok_cong [OF tally_tick])
next
  case (focus_changed w td now hidden focused)
  then show ?case by (intro page_ok_persist) (simp_all add: focusEvent_def tally_ok_checkFocus)
next
  case (finish_called w td now)
  then show ?case by (intro page_ok_persist) (simp_all add: tally_ok_cong [OF tally_call_finishTest])
next
  case (finish_resumed w td)
  then show ?case by (intro page_ok_persist) (simp_all add: tally_ok_cong [OF tally_resume_finishTest])
next
  case (view_changed w st)
  then show ?case by simp
qed

subsection \<open>The pages of the sample visit\<close>

lemma comp_persist [simp]: "comp (persist c w) = c"
  by (simp add: persist_def)

lemma storage_persist_changed:
  "f (state c) \<noteq> f (state (comp w)) \<Longrightarrow> storage (persist c w) = Stored (state c)"
  by (auto simp: persist_def)

lemma comp_ready: "comp w_ready = c_ready"
  by (simp add: w_ready_def w_opened_def c_ready_def)

lemma comp_started: "comp w_started = c_started"
  by (simp add: w_started_def comp_ready c_started_def)

lemma td_ready: "testData (comp w_ready) = Some demo_td"
  by (simp add: w_ready_def w_opened_def onMounted_def initial_ctrl_def Let_def)

lemma state_ready:
  "state c_ready = initial_state\<lparr>questions := [mc_q], answers := [''m1'' \<mapsto> AList []],
     questionTimings := [''m1'' \<mapsto> Num 0], maxScore := 10\<rparr>"
  by (simp add: c_ready_def onMounted_def initial_ctrl_def Let_def prepareQuestions_def
      selectQuestions_def requiredPart_def demo_props_def demo_td_def demo_rng_def initQuestion_def
      shuffleOpts_def mc_q_def initial_state_def)

lemma started_eq:
  "c_started = c_ready\<lparr>status := IN_PROGRESS,
      state := (state c_ready)\<lparr>startTime := 1000000, lastQuestionEntryTime := 1000000\<rparr>,
      timeLeft := ''20:00'', timerInterval := Some 0, intervals := [0], nextHandle := 1, listeners := True\<rparr>"
  by (simp add: c_started_def c_ready_def startTest_def updateTimer_def addCheatListeners_def setInterval_def
      limitMs_def demo_td_def formatRemaining_def padStart2_def toString_nat.simps digit_char_def
      onMounted_def initial_ctrl_def Let_def)

lemma started_fields:
  "status c_started = IN_PROGRESS" "listeners c_started" "testData c_started = testData c_ready"
  "state c_started = (state c_ready)\<lparr>startTime := 1000000, lastQuestionEntryTime := 1000000\<rparr>"
  "alerts c_started = alerts c_ready"
  by (simp_all add: started_eq)

lemma ready_fields: "testData c_ready = Some demo_td" "alerts c_ready = []"
  by (simp_all add: c_ready_def onMounted_def initial_ctrl_def Let_def)

lemma td_started: "testData (comp w_started) = Some demo_td"
  by (simp add: comp_started started_fields ready_fields)

lemma cheat_started: "cheatAttempts (state c_started) = 0" "cheatLogs (state c_started) = []"
  by (simp_all add: started_fields state_ready initial_state_def)

lemma warned_eq:
  "comp w_warned = c_started\<lparr>state := (state c_started)\<lparr>cheatAttempts := 1, cheatLogs := [CheatLog 1100000]\<rparr>,
      alerts := [CheatWarning 1 (Some 2)]\<rparr>"
proof -
  have "max_cheat_attempts demo_td = Some 2" by (simp add: demo_td_def)
  then show ?thesis
    unfolding w_warned_def comp_persist comp_started focusEvent_def checkFocus_def
    by (simp add: started_fields(1,2,5) ready_fields cheat_started reachedMax_def Let_def)
qed

lemma storage_warned: "storage w_warned = Stored (state (comp w_warned))"
proof -
  have "cheatAttempts (state (comp w_warned)) \<noteq> cheatAttempts (state (comp w_started))"
    by (simp add: warned_eq comp_started cheat_started)
  then have "storage (persist (comp w_warned) w_started) = Stored (state (comp w_warned))"
    by (rule storage_persist_changed)
  moreover have "persist (comp w_warned) w_started = w_warned"
    by (simp add: w_warned_def)
  ultimately show ?thesis by simp
qed

lemma reach_warned: "reachable demo_env w_warned"
  unfolding w_warned_def
  apply (rule reachable.focus_changed [OF _ td_started])
  unfolding w_started_def
  apply (rule reachable.started [OF _ td_ready])
  unfolding w_ready_def
  apply (rule reachable.mounted)
  unfolding w_opened_def
  apply (rule reachable.opened)
  done

lemma reach_relocked: "reachable demo_env w_relocked"
  unfolding w_relocked_def w_reloaded_def
  by (rule reachable.mounted [OF reachable.reloaded [OF reach_warned]])

text \<open>
  C10. On every page that can arise, the violation counter of the session equals the
  number of lines of the violation log, and so does the stored session. \<open>checkFocus\<close>
  adds one to the counter and one line, stamped with the clock reading, to the log when
  the test is in progress and the document is hidden or without focus, and changes
  neither otherwise; starting, moving to the next or previous question, a timer tick,
  calling \<open>finishTest\<close> and its completion change neither.
\<close>

theorem violation_counter_matches_log:
  assumes "reachable e w"
  shows "cheatAttempts (state (comp w)) = int (length (cheatLogs (state (comp w))))
       \<and> stored_ok (storage w)
       \<and> tally (state (checkFocus td now hidden focused (comp w))) =
           (if status (comp w) = IN_PROGRESS \<and> (hidden \<or> \<not> focused)
            then (cheatAttempts (state (comp w)) + 1, cheatLogs (state (comp w)) @ [CheatLog now])
            else tally (state (comp w)))
       \<and> tally (state (startTest e td now (comp w))) = tally (state (comp w))
       \<and> tally (state (tick e td now (comp w))) = tally (state (comp w))
       \<and> tally (state (call_finishTest e td now (comp w))) = tally (state (comp w))
       \<and> tally (state (resume_finishTest e td (comp w))) = tally (state (comp w))
       \<and> map_option tally (nextQuestion now (state (comp w))) =
           map_option (\<lambda>s. tally (state (comp w))) (nextQuestion now (state (comp w)))
       \<and> map_option tally (prevQuestion now (state (comp w))) =
           map_option (\<lambda>s. tally (state (comp w))) (prevQuestion now (state (comp w)))"
proof -
  have inv: "cheatAttempts (state (comp w)) = int (length (cheatLogs (state (comp w))))" "stored_ok (storage w)"
    using reachable_tally [OF assms] by (simp_all add: tally_ok_def)
  have nx: "map_option tally (nextQuestion now (state (comp w))) =
           map_option (\<lambda>s. tally (state (comp w))) (nextQuestion now (state (comp w)))"
    by (cases "nextQuestion now (state (comp w))") (simp_all add: tally_nextQuestion)
  have pv: "map_option tally (prevQuestion now (state (comp w))) =
           map_option (\<lambda>s. tally (state (comp w))) (prevQuestion now (state (comp w)))"
    by (cases "prevQuestion now (state (comp w))") (simp_all add: tally_prevQuestion)
  show ?thesis
    using inv nx pv
    by (simp add: tally_checkFocus tally_startTest tally_tick tally_call_finishTest tally_resume_finishTest)
qed

text \<open>After the one loss of focus of the sample visit: counter 1, one log line, stored.\<close>

theorem violation_counter_matches_log_witness:
  "reachable demo_env w_warned \<and>
   cheatAttempts (state (comp w_warned)) = 1 \<and>
   cheatLogs (state (comp w_warned)) = [CheatLog 1100000] \<and>
   storage w_warned = Stored (state (comp w_warned))"
  using violation_counter_matches_log [OF reach_warned] reach_warned storage_warned
  by (simp add: warned_eq)

subsection \<open>Finishing twice\<close>

lemma finishTest_grade_keeps:
  "endTime (state (finishTest_grade e td c)) = endTime (state c)"
  "questionTimings (state (finishTest_grade e td c)) = questionTimings (state c)"
  by (simp_all add: finishTest_grade_def split: prod.splits)

text \<open>
  C1. \<open>finishTest\<close> does not look at \<open>endTime\<close>: called on a session that is already
  stamped complete, whose index points at a selected question with a timing bucket, it
  stamps \<open>endTime\<close> anew with the clock reading of the call and adds the time since the
  question was entered to the bucket once more.
\<close>

theorem finish_call_restamps_completed_session:
  assumes stamped: "0 < endTime (state c)"
      and lo: "0 \<le> currentIndex (state c)" and hi: "currentIndex (state c) < int (length (questions (state c)))"
      and bucket: "questionTimings (state c) (qid (questions (state c) ! nat (currentIndex (state c)))) = Some (Num t)"
  shows "endTime (state (call_finishTest e td now c)) = now
       \<and> questionTimings (state (call_finishTest e td now c))
            (qid (questions (state c) ! nat (currentIndex (state c))))
           = Some (Num (t + (now - lastQuestionEntryTime (state c))))"
proof -
  have st: "state (clearInterval c) = state c"
    by (simp add: clearInterval_def split: option.splits)
  let ?s = "(state c)\<lparr>questionTimings := (questionTimings (state c))
              (qid (questions (state c) ! nat (currentIndex (state c))) \<mapsto>
                 Num (t + (now - lastQuestionEntryTime (state c))))\<rparr>"
  have r: "recordTime now (state c) = Some ?s"
    using lo hi bucket by (simp add: recordTime_def Let_def)
  have sync: "finishTest_sync now c =
      Inr ((removeCheatListeners ((clearInterval c)\<lparr>state := ?s\<rparr>))\<lparr>state := ?s\<lparr>endTime := now\<rparr>\<rparr>)"
    using r by (simp add: finishTest_sync_def Let_def st)
  show ?thesis
    by (simp add: call_finishTest_def sync finishTest_grade_keeps removeCheatListeners_def)
qed

text \<open>
  The finish button pressed at 1500000 and again at 1500400, while the grading of the
  first call waits for the database: the test is still in progress and one call is
  waiting; the second call moves \<open>endTime\<close> from 1500000 to 1500400 and the bucket of the
  question from 500000 to 1000400, and two calls are waiting. When both have finished,
  score and grade are those of a single call.
\<close>

theorem finish_call_restamps_completed_session_witness:
  "status c_finishing = IN_PROGRESS \<and> pending c_finishing = 1 \<and>
   endTime (state c_finishing) = 1500000 \<and>
   questionTimings (state c_finishing) ''q1'' = Some (Num 500000) \<and>
   endTime (state (call_finishTest demo_env sql_td 1500400 c_finishing)) = 1500400 \<and>
   questionTimings (state (call_finishTest demo_env sql_td 1500400 c_finishing)) ''q1'' = Some (Num 1000400) \<and>
   pending (call_finishTest demo_env sql_td 1500400 c_finishing) = 2 \<and>
   score (state (resume_finishTest demo_env sql_td c_finishing)) = 5 \<and>
   score (state (resume_finishTest demo_env sql_td (resume_finishTest demo_env sql_td
            (call_finishTest demo_env sql_td 1500400 c_finishing)))) = 5 \<and>
   grade (state (resume_finishTest demo_env sql_td (resume_finishTest demo_env sql_td
            (call_finishTest demo_env sql_td 1500400 c_finishing)))) = Num 5"
proof -
  have ev: "status c_finishing = IN_PROGRESS \<and> pending c_finishing = 1 \<and>
   endTime (state c_finishing) = 1500000 \<and>
   questionTimings (state c_finishing) ''q1'' = Some (Num 500000) \<and>
   pending (call_finishTest demo_env sql_td 1500400 c_finishing) = 2 \<and>
   score (state (resume_finishTest demo_env sql_td c_finishing)) = 5 \<and>
   score (state (resume_finishTest demo_env sql_td (resume_finishTest demo_env sql_td
            (call_finishTest demo_env sql_td 1500400 c_finishing)))) = 5 \<and>
   grade (state (resume_finishTest demo_env sql_td (resume_finishTest demo_env sql_td
            (call_finishTest demo_env sql_td 1500400 c_finishing)))) = Num 5"
    by code_simp
  have h: "0 < endTime (state c_finishing)"
    "0 \<le> currentIndex (state c_finishing)"
    "currentIndex (state c_finishing) < int (length (questions (state c_finishing)))"
    "questionTimings (state c_finishing)
       (qid (questions (state c_finishing) ! nat (currentIndex (state c_finishing)))) = Some (Num 500000)"
    "qid (questions (state c_finishing) ! nat (currentIndex (state c_finishing))) = ''q1''"
    "lastQuestionEntryTime (state c_finishing) = 1000000"
    by code_simp+
  from finish_call_restamps_completed_session [OF h(1-4), of demo_env sql_td 1500400]
  show ?thesis using ev by (simp add: h(5,6))
qed

subsection \<open>Mounting on a stored session\<close>

lemma listeners_clearInterval [simp]: "listeners (clearInterval c) = listeners c"
  by (simp add: clearInterval_def split: option.splits)

lemma listeners_setInterval [simp]: "listeners (setInterval c) = listeners c"
  by (simp add: setInterval_def)

lemma listeners_finishTest_grade [simp]: "listeners (finishTest_grade e td c) = listeners c"
  by (simp add: finishTest_grade_def split: prod.splits)

lemma listeners_call_finishTest: "listeners (call_finishTest e td now c) \<Longrightarrow> listeners c"
  by (auto simp: call_finishTest_def finishTest_sync_def Let_def removeCheatListeners_def
           split: sum.splits option.splits if_splits)

lemma listeners_updateTimer: "listeners (updateTimer e td now c) \<Longrightarrow> listeners c"
  by (auto simp: updateTimer_def Let_def split: if_splits dest!: listeners_call_finishTest)

text \<open>
  C3. \<open>onMounted\<close> never registers the focus and visibility listeners: a component
  whose listeners are not registered, as every newly created component is, has none
  after mounting, whatever the stored session. Only \<open>startTest\<close> calls
  \<open>addCheatListeners\<close>.
\<close>

theorem mount_registers_no_listeners:
  assumes "\<not> listeners c"
  shows "\<not> listeners (onMounted e r p isChrome fetched saved now c)"
  using assms
  by (auto simp: onMounted_def Let_def split: option.splits stored.splits if_splits
           dest!: listeners_updateTimer)

text \<open>
  The page loaded again five minutes into the test: the component is in progress and
  shows the fifteen minutes left of the stored start, its interval timer runs, and the
  listeners are not registered, so a loss of focus that the first visit counts is not
  counted.
\<close>

theorem mount_registers_no_listeners_witness:
  "\<not> isBlocked (state c_started) \<and> endTime (state c_started) = 0 \<and> 0 < startTime (state c_started) \<and>
   status c_resumed = IN_PROGRESS \<and> timeLeft c_resumed = ''15:00'' \<and> intervals c_resumed = [0] \<and>
   \<not> listeners c_resumed \<and> listeners c_started \<and>
   cheatAttempts (state (focusEvent demo_td 1300500 True False c_resumed)) = 0 \<and>
   cheatAttempts (state (focusEvent demo_td 1300500 True False c_started)) = 1"
proof -
  have n: "\<not> listeners initial_ctrl" by (simp add: initial_ctrl_def)
  have l: "\<not> listeners c_resumed"
    unfolding c_resumed_def by (rule mount_registers_no_listeners [OF n])
  have ev: "\<not> isBlocked (state c_started) \<and> endTime (state c_started) = 0 \<and> 0 < startTime (state c_started) \<and>
   status c_resumed = IN_PROGRESS \<and> timeLeft c_resumed = ''15:00'' \<and> intervals c_resumed = [0] \<and>
   listeners c_started \<and>
   cheatAttempts (state (focusEvent demo_td 1300500 True False c_resumed)) = 0 \<and>
   cheatAttempts (state (focusEvent demo_td 1300500 True False c_started)) = 1"
    by code_simp
  show ?thesis using l ev by simp
qed

lemma checkFocus_lockout_stamps_endTime:
  assumes "\<not> isBlocked (state c)" and "isBlocked (state (checkFocus td now hidden focused c))"
  shows "endTime (state (checkFocus td now hidden focused c)) = now
       \<and> status (checkFocus td now hidden focused c) = BLOCKED"
  using assms
  by (auto simp: checkFocus_def Let_def removeCheatListeners_def split: if_splits)

text \<open>
  C4. When the stored counter has reached the maximum of the quiz document, \<open>onMounted\<close>
  sets the lockout flag and shows the completed view, and leaves \<open>endTime\<close> as it was
  stored: a stored session that was not finished is locked out with \<open>endTime\<close> 0.
  \<open>checkFocus\<close> stamps \<open>endTime\<close> when it sets the flag.
\<close>

theorem mount_lockout_keeps_endTime:
  assumes "reachedMax (max_cheat_attempts td) (cheatAttempts sv)"
  shows "isBlocked (state (onMounted e r p True (Some td) (Stored sv) now c))
       \<and> endTime (state (onMounted e r p True (Some td) (Stored sv) now c)) = endTime sv
       \<and> status (onMounted e r p True (Some td) (Stored sv) now c) = COMPLETED"
  using assms by (simp add: onMounted_def Let_def)

lemma relocked_eq:
  "comp w_relocked = onMounted demo_env demo_rng demo_props True (Some strict_td)
                        (Stored (state (comp w_warned))) 1300000 initial_ctrl"
  by (simp add: w_relocked_def w_reloaded_def storage_warned)

lemma warned_fields:
  "cheatAttempts (state (comp w_warned)) = 1" "endTime (state (comp w_warned)) = 0"
  "\<not> isBlocked (state (comp w_warned))" "status (comp w_warned) = IN_PROGRESS"
  by (simp_all add: warned_eq started_fields state_ready initial_state_def)

text \<open>
  The sample visit: one loss of focus under a maximum of two gives a warning; the quiz is
  published again with a maximum of one and the page is loaded again. The page is one
  that can arise, the session is locked out, and its \<open>endTime\<close> is 0.
\<close>

theorem mount_lockout_keeps_endTime_witness:
  "reachable demo_env w_relocked \<and>
   \<not> isBlocked (state (comp w_warned)) \<and>
   isBlocked (state (comp w_relocked)) \<and>
   endTime (state (comp w_relocked)) = 0 \<and>
   status (comp w_relocked) = COMPLETED"
proof -
  have h: "reachedMax (max_cheat_attempts strict_td) (cheatAttempts (state (comp w_warned)))"
    by (simp add: warned_fields strict_td_def reachedMax_def)
  from mount_lockout_keeps_endTime [OF h, of demo_env demo_rng demo_props 1300000 initial_ctrl]
  show ?thesis using reach_relocked by (simp add: relocked_eq warned_fields)
qed

subsection \<open>Timer\<close>

text \<open>
  C6. While the test is in progress, a tick of a live interval timer at which no time
  remains sets the display to 00:00, calls \<open>finishTest\<close> and shows the alert, and it
  does so at every such tick: when the grading of an earlier call is still waiting, the
  status is still in progress and the tick starts another call.
\<close>

theorem expired_tick_starts_finish_each_time:
  assumes "status c = IN_PROGRESS"
      and "limitMs td - (now - startTime (state c)) \<le> 0"
      and "intervals c \<noteq> []"
      and "0 \<le> currentIndex (state c)" and "currentIndex (state c) < int (length (questions (state c)))"
      and "list_ex (\<lambda>q. awaits q (answers (state c) (qid q))) (questions (state c))"
  shows "timeLeft (tick e td now c) = ''00:00''
       \<and> alerts (tick e td now c) = alerts c @ [TimeUp]
       \<and> pending (tick e td now c) = Suc (pending c)
       \<and> endTime (state (tick e td now c)) = now
       \<and> status (tick e td now c) = IN_PROGRESS"
proof -
  have st: "state (clearInterval c'') = state c''" for c''
    by (simp add: clearInterval_def split: option.splits)
  let ?c = "c\<lparr>timeLeft := ''00:00''\<rparr>"
  obtain s where s: "recordTime now (state ?c) = Some s"
    using assms(4,5) by (auto simp: recordTime_def Let_def)
  then have same: "questions s = questions (state c)" "answers s = answers (state c)"
    by (auto simp: recordTime_def Let_def split: if_splits)
  have sync: "finishTest_sync now ?c =
      Inr ((removeCheatListeners ((clearInterval ?c)\<lparr>state := s\<rparr>))\<lparr>state := s\<lparr>endTime := now\<rparr>\<rparr>)"
    using s by (simp add: finishTest_sync_def Let_def st)
  have fields: "timeLeft (clearInterval ?c) = ''00:00''" "alerts (clearInterval ?c) = alerts c"
    "pending (clearInterval ?c) = pending c" "status (clearInterval ?c) = status c"
    by (simp_all add: clearInterval_def split: option.splits)
  have call: "call_finishTest e td now ?c =
      ((removeCheatListeners ((clearInterval ?c)\<lparr>state := s\<rparr>))\<lparr>state := s\<lparr>endTime := now\<rparr>\<rparr>)
        \<lparr>pending := Suc (pending c)\<rparr>"
    using assms(6) same fields by (simp add: call_finishTest_def sync removeCheatListeners_def)
  have "tick e td now c = (call_finishTest e td now ?c)\<lparr>alerts := alerts (call_finishTest e td now ?c) @ [TimeUp]\<rparr>"
    using assms(1,2,3) by (simp add: tick_def updateTimer_def Let_def)
  then show ?thesis
    using fields assms(1) by (simp add: call removeCheatListeners_def)
qed

text \<open>
  The page loaded again one millisecond after the time limit, with the SQL question
  answered: mounting calls \<open>finishTest\<close> and then installs the interval timer; the
  grading waits for the database. The tick one second later finds the test in progress
  and calls \<open>finishTest\<close> again: two calls are waiting and the alert has been shown
  twice. When both calls have finished the report is shown.
\<close>

theorem expired_tick_starts_finish_each_time_witness:
  "startTime (state c_sql_answered) = 2200001 - limitMs sql_td - 1 \<and>
   status c_expired = IN_PROGRESS \<and> timeLeft c_expired = ''00:00'' \<and>
   alerts c_expired = [TimeUp] \<and> pending c_expired = 1 \<and> intervals c_expired = [0] \<and>
   alerts (tick demo_env sql_td 2201001 c_expired) = [TimeUp, TimeUp] \<and>
   pending (tick demo_env sql_td 2201001 c_expired) = 2 \<and>
   status (tick demo_env sql_td 2201001 c_expired) = IN_PROGRESS \<and>
   status (resume_finishTest demo_env sql_td (resume_finishTest demo_env sql_td
             (tick demo_env sql_td 2201001 c_expired))) = COMPLETED_VIEW"
proof -
  have ev: "startTime (state c_sql_answered) = 2200001 - limitMs sql_td - 1 \<and>
   status c_expired = IN_PROGRESS \<and> timeLeft c_expired = ''00:00'' \<and>
   alerts c_expired = [TimeUp] \<and> pending c_expired = 1 \<and> intervals c_expired = [0] \<and>
   status (resume_finishTest demo_env sql_td (resume_finishTest demo_env sql_td
             (tick demo_env sql_td 2201001 c_expired))) = COMPLETED_VIEW"
    by code_simp
  have h: "status c_expired = IN_PROGRESS"
    "limitMs sql_td - (2201001 - startTime (state c_expired)) \<le> 0"
    "intervals c_expired \<noteq> []"
    "0 \<le> currentIndex (state c_expired)"
    "currentIndex (state c_expired) < int (length (questions (state c_expired)))"
    "list_ex (\<lambda>q. awaits q (answers (state c_expired) (qid q))) (questions (state c_expired))"
    by code_simp+
  from expired_tick_starts_finish_each_time [OF h, of demo_env]
  show ?thesis using ev by simp
qed

end
